theory Spec2Isabelle
  imports Complex_Main
begin

section \<open>Python values\<close>

text \<open>
  The bot is written in Python. A string is modelled by the bytes of its UTF-8 encoding
  (\<open>string\<close>), the exceptions that the handlers can raise as the datatype \<open>py_error\<close>,
  and a Python
  \<open>float\<close> as an IEEE 754 binary64 value: a sign, a mantissa below \<open>2^53\<close> and an
  exponent of two, so that the value of \<open>Finite s m e\<close> is \<open>\<plusminus> m * 2^e\<close>. Finite values are
  kept normalised (\<open>2^52 \<le> m\<close>, or \<open>e = -1074\<close> for zero and the subnormal numbers), so
  that two floats are equal as values of the datatype exactly when they are the same
  binary64 number.
\<close>

datatype py_error = KeyError | AttributeError | ValueError | TypeError

datatype pyfloat = Finite bool nat int | Infinity bool | NaN

subsection \<open>Rounding to the nearest float\<close>

fun bit_length :: "nat \<Rightarrow> nat" where
  "bit_length n = (if n = 0 then 0 else Suc (bit_length (n div 2)))"

text \<open>The integer nearest to \<open>n / d\<close>, a tie going to the even one.\<close>

definition round_half_even :: "nat \<Rightarrow> nat \<Rightarrow> nat" where
  "round_half_even n d =
     (let q = n div d; r = n mod d
      in if 2 * r < d then q else if 2 * r > d then q + 1 else if even q then q else q + 1)"

text \<open>\<open>2^k \<le> n / d\<close>, for an integer \<open>k\<close> of either sign.\<close>

definition ratio_ge_pow2 :: "nat \<Rightarrow> nat \<Rightarrow> int \<Rightarrow> bool" where
  "ratio_ge_pow2 n d k = (if k \<ge> 0 then d * 2 ^ nat k \<le> n else d \<le> n * 2 ^ nat (- k))"

text \<open>
  The binary64 value nearest to \<open>\<plusminus> n / d\<close> (\<open>d > 0\<close>), ties to even: \<open>e\<close> is the exponent of
  the leading bit, \<open>x\<close> the exponent of the last place (at least \<open>-1074\<close>, where the
  subnormal numbers start), and a result of \<open>2^1024\<close> or more is an infinity.
\<close>

definition float_of_ratio :: "bool \<Rightarrow> nat \<Rightarrow> nat \<Rightarrow> pyfloat" where
  "float_of_ratio s n d =
     (if n = 0 then Finite s 0 (- 1074)
      else
        (let k = int (bit_length n) - int (bit_length d);
             e = (if ratio_ge_pow2 n d k then k else k - 1);
             x = max (e - 52) (- 1074);
             m = (if x \<ge> 0 then round_half_even n (d * 2 ^ nat x)
                  else round_half_even (n * 2 ^ nat (- x)) d);
             m' = (if m = 2 ^ 53 then 2 ^ 52 else m);
             x' = (if m = 2 ^ 53 then x + 1 else x)
         in if x' > 971 then Infinity s else Finite s m' x'))"

text \<open>The float nearest to \<open>\<plusminus> n * 2^e\<close> and to \<open>\<plusminus> n * 10^e\<close>.\<close>

definition float_of_scaled2 :: "bool \<Rightarrow> nat \<Rightarrow> int \<Rightarrow> pyfloat" where
  "float_of_scaled2 s n e =
     (if e \<ge> 0 then float_of_ratio s (n * 2 ^ nat e) 1 else float_of_ratio s n (2 ^ nat (- e)))"

definition float_of_scaled10 :: "bool \<Rightarrow> nat \<Rightarrow> int \<Rightarrow> pyfloat" where
  "float_of_scaled10 s n e =
     (if e \<ge> 0 then float_of_ratio s (n * 10 ^ nat e) 1 else float_of_ratio s n (10 ^ nat (- e)))"

definition float_of_int :: "int \<Rightarrow> pyfloat" where
  "float_of_int i = float_of_ratio (i < 0) (nat \<bar>i\<bar>) 1"

subsection \<open>Comparison and subtraction\<close>

text \<open>A finite float as an integer multiple of \<open>2^e0\<close>, for \<open>e0\<close> not above its exponent.\<close>

definition scaled_mantissa :: "bool \<Rightarrow> nat \<Rightarrow> int \<Rightarrow> int \<Rightarrow> int" where
  "scaled_mantissa s m e e0 = (if s then - 1 else 1) * int m * 2 ^ nat (e - e0)"

fun float_lt :: "pyfloat \<Rightarrow> pyfloat \<Rightarrow> bool" where
  "float_lt NaN b = False"
| "float_lt a NaN = False"
| "float_lt (Infinity s1) (Infinity s2) = (s1 \<and> \<not> s2)"
| "float_lt (Infinity s1) (Finite s2 m2 e2) = s1"
| "float_lt (Finite s1 m1 e1) (Infinity s2) = (\<not> s2)"
| "float_lt (Finite s1 m1 e1) (Finite s2 m2 e2) =
     (let e0 = min e1 e2 in scaled_mantissa s1 m1 e1 e0 < scaled_mantissa s2 m2 e2 e0)"

fun float_eq :: "pyfloat \<Rightarrow> pyfloat \<Rightarrow> bool" where
  "float_eq NaN b = False"
| "float_eq a NaN = False"
| "float_eq (Infinity s1) (Infinity s2) = (s1 = s2)"
| "float_eq (Infinity s1) (Finite s2 m2 e2) = False"
| "float_eq (Finite s1 m1 e1) (Infinity s2) = False"
| "float_eq (Finite s1 m1 e1) (Finite s2 m2 e2) =
     (let e0 = min e1 e2 in scaled_mantissa s1 m1 e1 e0 = scaled_mantissa s2 m2 e2 e0)"

definition float_le :: "pyfloat \<Rightarrow> pyfloat \<Rightarrow> bool" where
  "float_le a b = (float_lt a b \<or> float_eq a b)"

definition float_gt :: "pyfloat \<Rightarrow> pyfloat \<Rightarrow> bool" where
  "float_gt a b = float_lt b a"

text \<open>
  \<open>a - b\<close>: the exact difference, rounded. An exact zero is \<open>+0.0\<close>, but \<open>-0.0 - 0.0\<close> is
  \<open>-0.0\<close>.
\<close>

fun float_sub :: "pyfloat \<Rightarrow> pyfloat \<Rightarrow> pyfloat" where
  "float_sub NaN b = NaN"
| "float_sub a NaN = NaN"
| "float_sub (Infinity s1) (Infinity s2) = (if s1 = s2 then NaN else Infinity s1)"
| "float_sub (Infinity s1) (Finite s2 m2 e2) = Infinity s1"
| "float_sub (Finite s1 m1 e1) (Infinity s2) = Infinity (\<not> s2)"
| "float_sub (Finite s1 m1 e1) (Finite s2 m2 e2) =
     (let e0 = min e1 e2;
          d = scaled_mantissa s1 m1 e1 e0 - scaled_mantissa s2 m2 e2 e0
      in if d = 0 then Finite (m1 = 0 \<and> s1 \<and> \<not> s2) 0 (- 1074)
         else float_of_scaled2 (d < 0) (nat \<bar>d\<bar>) e0)"

subsection \<open>\<open>float(text)\<close>\<close>

definition ord :: "char \<Rightarrow> nat" where
  "ord c = of_char c"

definition is_digit :: "char \<Rightarrow> bool" where
  "is_digit c = (48 \<le> ord c \<and> ord c \<le> 57)"

definition is_space :: "char \<Rightarrow> bool" where
  "is_space c = (ord c = 32 \<or> (9 \<le> ord c \<and> ord c \<le> 13))"

definition strip :: "string \<Rightarrow> string" where
  "strip s = rev (dropWhile is_space (rev (dropWhile is_space s)))"

fun nat_of_digits :: "nat \<Rightarrow> string \<Rightarrow> nat" where
  "nat_of_digits acc [] = acc"
| "nat_of_digits acc (c # cs) = nat_of_digits (10 * acc + (ord c - 48)) cs"

text \<open>
  An underscore may stand between two digits only; \<open>prev\<close> is the character before.
  The result is the text without its underscores.
\<close>

fun remove_underscores :: "char \<Rightarrow> string \<Rightarrow> string option" where
  "remove_underscores prev [] = (if prev = CHR ''_'' then None else Some [])"
| "remove_underscores prev (c # cs) =
     (if c = CHR ''_'' then
        (if is_digit prev then remove_underscores c cs else None)
      else if prev = CHR ''_'' \<and> \<not> is_digit c then None
      else map_option ((#) c) (remove_underscores c cs))"

text \<open>The letters of ASCII, for \<open>str.lower()\<close> and \<open>str.title()\<close>.\<close>

definition upper_letters :: string where
  "upper_letters = ''ABCDEFGHIJKLMNOPQRSTUVWXYZ''"

definition lower_letters :: string where
  "lower_letters = ''abcdefghijklmnopqrstuvwxyz''"

definition is_lower_char :: "char \<Rightarrow> bool" where
  "is_lower_char c = (c \<in> set lower_letters)"

definition is_upper_char :: "char \<Rightarrow> bool" where
  "is_upper_char c = (c \<in> set upper_letters)"

definition lower_char :: "char \<Rightarrow> char" where
  "lower_char c = (case map_of (zip upper_letters lower_letters) c of Some l \<Rightarrow> l | None \<Rightarrow> c)"

definition upper_char :: "char \<Rightarrow> char" where
  "upper_char c = (case map_of (zip lower_letters upper_letters) c of Some u \<Rightarrow> u | None \<Rightarrow> c)"

definition parse_sign :: "string \<Rightarrow> bool \<times> string" where
  "parse_sign s = (case s of
      [] \<Rightarrow> (False, [])
    | c # cs \<Rightarrow> if c = CHR ''-'' then (True, cs) else if c = CHR ''+'' then (False, cs) else (False, s))"

text \<open>The exponent part: nothing, or \<open>e\<close>, an optional sign and at least one digit.\<close>

definition parse_exponent :: "string \<Rightarrow> int option" where
  "parse_exponent s = (case s of
      [] \<Rightarrow> Some 0
    | c # cs \<Rightarrow>
        if c = CHR ''e'' \<or> c = CHR ''E'' then
          (let (neg, ds) = parse_sign cs
           in if ds \<noteq> [] \<and> list_all is_digit ds
              then Some ((if neg then - 1 else 1) * int (nat_of_digits 0 ds)) else None)
        else None)"

text \<open>
  A decimal numeral: sign, digits with an optional point, exponent. The result
  \<open>(s, n, e)\<close> stands for \<open>\<plusminus> n * 10^e\<close>, exactly.
\<close>

definition parse_decimal :: "string \<Rightarrow> (bool \<times> nat \<times> int) option" where
  "parse_decimal s =
     (let (neg, r) = parse_sign s;
          ip = takeWhile is_digit r;
          r1 = dropWhile is_digit r;
          has_point = (r1 \<noteq> [] \<and> hd r1 = CHR ''.'');
          fp = (if has_point then takeWhile is_digit (tl r1) else []);
          r2 = (if has_point then dropWhile is_digit (tl r1) else r1)
      in if ip = [] \<and> fp = [] then None
         else case parse_exponent r2 of
                None \<Rightarrow> None
              | Some ex \<Rightarrow> Some (neg, nat_of_digits 0 (ip @ fp), ex - int (length fp)))"

definition parse_inf_or_nan :: "string \<Rightarrow> pyfloat option" where
  "parse_inf_or_nan s =
     (let (neg, r) = parse_sign s; l = map lower_char r
      in if l = ''inf'' \<or> l = ''infinity'' then Some (Infinity neg)
         else if l = ''nan'' then Some NaN else None)"

text \<open>
  The conversion of an ASCII text, after the underscores: \<open>None\<close> when Python raises
  \<open>ValueError\<close>.
\<close>

definition float_from_string :: "string \<Rightarrow> pyfloat option" where
  "float_from_string text =
     (case (if CHR ''_'' \<in> set text then remove_underscores (CHR 0x00) text else Some text) of
        None \<Rightarrow> None
      | Some t \<Rightarrow>
          (let s = strip t
           in case parse_inf_or_nan s of
                Some x \<Rightarrow> Some x
              | None \<Rightarrow>
                  (case parse_decimal s of
                     None \<Rightarrow> None
                   | Some (neg, n, e) \<Rightarrow> Some (float_of_scaled10 neg n e))))"

text \<open>
  A text is a byte string, the UTF-8 encoding of the Python string. \<open>utf8_decode\<close> reads it
  as characters: a character of ASCII, or the code point of another character; \<open>None\<close>
  when the bytes are not UTF-8 (a sequence that is cut short or longer than its code
  point needs, a surrogate, a code point above \<open>0x10FFFF\<close>), which the text of a message
  never is.
\<close>

datatype uchar = Ascii char | Code nat

definition is_continuation :: "char \<Rightarrow> bool" where
  "is_continuation c = (128 \<le> ord c \<and> ord c \<le> 191)"

definition code_point :: "nat \<Rightarrow> nat \<Rightarrow> nat \<Rightarrow> uchar list option \<Rightarrow> uchar list option" where
  "code_point lo hi cp rest =
     (if lo \<le> cp \<and> cp \<le> hi \<and> \<not> (55296 \<le> cp \<and> cp \<le> 57343)
      then map_option ((#) (Code cp)) rest else None)"

fun utf8_decode :: "string \<Rightarrow> uchar list option" where
  "utf8_decode [] = Some []"
| "utf8_decode (c # cs) =
     (if ord c < 128 then map_option ((#) (Ascii c)) (utf8_decode cs)
      else if 194 \<le> ord c \<and> ord c \<le> 223 then
        (case cs of
           c1 # r \<Rightarrow>
             if is_continuation c1
             then code_point 128 2047 ((ord c - 192) * 64 + (ord c1 - 128)) (utf8_decode r)
             else None
         | _ \<Rightarrow> None)
      else if 224 \<le> ord c \<and> ord c \<le> 239 then
        (case cs of
           c1 # c2 # r \<Rightarrow>
             if is_continuation c1 \<and> is_continuation c2
             then code_point 2048 65535
                    ((ord c - 224) * 4096 + (ord c1 - 128) * 64 + (ord c2 - 128)) (utf8_decode r)
             else None
         | _ \<Rightarrow> None)
      else if 240 \<le> ord c \<and> ord c \<le> 244 then
        (case cs of
           c1 # c2 # c3 # r \<Rightarrow>
             if is_continuation c1 \<and> is_continuation c2 \<and> is_continuation c3
             then code_point 65536 1114111
                    ((ord c - 240) * 262144 + (ord c1 - 128) * 4096 +
                     (ord c2 - 128) * 64 + (ord c3 - 128)) (utf8_decode r)
             else None
         | _ \<Rightarrow> None)
      else None)"

text \<open>
  The characters outside ASCII that Python takes as white space (\<open>str.isspace\<close>), and the
  code points of the digit zero of the decimal digits outside ASCII, each followed by
  its digits one to nine (the Unicode character database, version 14.0).
\<close>

definition unicode_spaces :: "nat list" where
  "unicode_spaces = [133, 160, 5760, 8192, 8193, 8194, 8195, 8196, 8197, 8198, 8199, 8200, 8201,
     8202, 8232, 8233, 8239, 8287, 12288]"

definition unicode_zeros :: "nat list" where
  "unicode_zeros = [
     1632, 1776, 1984, 2406, 2534, 2662, 2790, 2918, 3046, 3174, 3302, 3430, 3558, 3664,
     3792, 3872, 4160, 4240, 6112, 6160, 6470, 6608, 6784, 6800, 6992, 7088, 7232, 7248,
     42528, 43216, 43264, 43472, 43504, 43600, 44016, 65296, 66720, 68912, 69734, 69872,
     69942, 70096, 70384, 70736, 70864, 71248, 71360, 71472, 71904, 72016, 72784, 73040,
     73120, 92768, 92864, 93008, 120782, 120792, 120802, 120812, 120822, 123200, 123632,
     125264, 130032]"

fun to_decimal :: "nat list \<Rightarrow> nat \<Rightarrow> nat option" where
  "to_decimal [] cp = None"
| "to_decimal (z # zs) cp = (if z \<le> cp \<and> cp < z + 10 then Some (cp - z) else to_decimal zs cp)"

text \<open>
  Before the conversion, \<open>float\<close> replaces every white space character outside ASCII by a
  blank and every decimal digit outside ASCII by its ASCII digit; any other character
  outside ASCII makes the conversion fail.
\<close>

fun transform_decimal_and_space :: "uchar list \<Rightarrow> string option" where
  "transform_decimal_and_space [] = Some []"
| "transform_decimal_and_space (Ascii c # us) = map_option ((#) c) (transform_decimal_and_space us)"
| "transform_decimal_and_space (Code cp # us) =
     (if cp \<in> set unicode_spaces then map_option ((#) CHR '' '') (transform_decimal_and_space us)
      else case to_decimal unicode_zeros cp of
             None \<Rightarrow> None
           | Some d \<Rightarrow> map_option ((#) (''0123456789'' ! d)) (transform_decimal_and_space us))"

text \<open>\<open>float(text)\<close>, \<open>None\<close> when Python raises \<open>ValueError\<close>.\<close>

definition py_float :: "string \<Rightarrow> pyfloat option" where
  "py_float text =
     (case utf8_decode text of
        None \<Rightarrow> None
      | Some us \<Rightarrow>
          (case transform_decimal_and_space us of
             None \<Rightarrow> None
           | Some t \<Rightarrow> float_from_string t))"

subsection \<open>\<open>str(x)\<close>\<close>

fun digits_of :: "nat \<Rightarrow> string" where
  "digits_of n = (if n < 10 then [''0123456789'' ! n]
     else digits_of (n div 10) @ [''0123456789'' ! (n mod 10)])"

definition str_int :: "int \<Rightarrow> string" where
  "str_int i = (if i < 0 then ''-'' @ digits_of (nat (- i)) else digits_of (nat i))"

text \<open>The least \<open>j\<close> with \<open>d \<le> n * 10^j\<close>, for \<open>n > 0\<close>.\<close>

function shift10 :: "nat \<Rightarrow> nat \<Rightarrow> nat" where
  "shift10 n d = (if n = 0 \<or> d \<le> n then 0 else Suc (shift10 (10 * n) d))"
  by pat_completeness auto
termination
  by (relation "measure (\<lambda>(n, d). d - n)") auto

text \<open>The decimal exponent \<open>p\<close> of \<open>n / d\<close>: \<open>10^(p - 1) \<le> n / d < 10^p\<close>.\<close>

definition decimal_point :: "nat \<Rightarrow> nat \<Rightarrow> int" where
  "decimal_point n d = (if d \<le> n then int (length (digits_of (n div d))) else 1 - int (shift10 n d))"

text \<open>
  The \<open>nd\<close>-digit decimals next to \<open>n / d\<close>: with \<open>q = p - nd\<close>, the integers below and
  above \<open>(n / d) / 10^q\<close>, the nearest one first.
\<close>

definition digit_candidates :: "nat \<Rightarrow> nat \<Rightarrow> int \<Rightarrow> nat list" where
  "digit_candidates n d q =
     (let n' = (if q \<ge> 0 then n else n * 10 ^ nat (- q));
          d' = (if q \<ge> 0 then d * 10 ^ nat q else d);
          lo = n' div d';
          near = round_half_even n' d'
      in if n' mod d' = 0 then [lo] else if near = lo then [lo, lo + 1] else [lo + 1, lo])"

text \<open>The first of the candidates \<open>cs\<close> (scaled by \<open>10^q\<close>) that reads back as the float \<open>x\<close>.\<close>

fun first_reading :: "pyfloat \<Rightarrow> int \<Rightarrow> nat list \<Rightarrow> nat option" where
  "first_reading x q [] = None"
| "first_reading x q (c # cs) =
     (if float_of_scaled10 False c q = x then Some c else first_reading x q cs)"

text \<open>
  The shortest decimal that reads back as the float \<open>x = n / d\<close>: the digits as a number
  and the power of ten they are scaled by. With 17 digits the nearest decimal always
  reads back.
\<close>

function shortest_digits :: "pyfloat \<Rightarrow> nat \<Rightarrow> nat \<Rightarrow> int \<Rightarrow> nat \<Rightarrow> nat \<times> int" where
  "shortest_digits x n d p nd =
     (let q = p - int nd;
          cs = digit_candidates n d q
      in if nd \<ge> 17 then (hd cs, q)
         else case first_reading x q cs of
                Some c \<Rightarrow> (c, q)
              | None \<Rightarrow> shortest_digits x n d p (nd + 1))"
  by pat_completeness auto
termination
  by (relation "measure (\<lambda>(x, n, d, p, nd). 17 - nd)") auto

fun strip_zeros :: "nat \<Rightarrow> int \<Rightarrow> nat \<times> int" where
  "strip_zeros n q = (if n \<noteq> 0 \<and> n mod 10 = 0 then strip_zeros (n div 10) (q + 1) else (n, q))"

text \<open>
  \<open>repr\<close> of a positive finite float from its digits \<open>ds\<close> and the position \<open>decpt\<close> of the
  decimal point (the value is \<open>0.ds * 10^decpt\<close>): scientific notation when
  \<open>decpt \<le> -4\<close> or \<open>decpt > 16\<close>, and \<open>.0\<close> after a whole number.
\<close>

definition format_repr :: "string \<Rightarrow> int \<Rightarrow> string" where
  "format_repr ds decpt =
     (if decpt \<le> - 4 \<or> decpt > 16 then
        (let ex = decpt - 1;
             exd = digits_of (nat \<bar>ex\<bar>)
         in [hd ds] @ (if tl ds = [] then [] else ''.'' @ tl ds) @ ''e'' @
            (if ex < 0 then ''-'' else ''+'') @ (if length exd < 2 then ''0'' @ exd else exd))
      else if decpt \<le> 0 then ''0.'' @ replicate (nat (- decpt)) CHR ''0'' @ ds
      else if nat decpt < length ds then take (nat decpt) ds @ ''.'' @ drop (nat decpt) ds
      else ds @ replicate (nat decpt - length ds) CHR ''0'' @ ''.0'')"

definition format_digits :: "nat \<times> int \<Rightarrow> string" where
  "format_digits cq =
     (let ds = digits_of (fst cq) in format_repr ds (int (length ds) + snd cq))"

definition strip_zeros_of :: "nat \<times> int \<Rightarrow> nat \<times> int" where
  "strip_zeros_of cq = strip_zeros (fst cq) (snd cq)"

text \<open>The shortest digits of the positive float \<open>x\<close>, which is \<open>n / d\<close>, searched from one digit on.\<close>

definition shortest_from :: "pyfloat \<Rightarrow> nat \<Rightarrow> nat \<Rightarrow> nat \<times> int" where
  "shortest_from x n d = shortest_digits x n d (decimal_point n d) 1"

definition float_digits :: "nat \<Rightarrow> int \<Rightarrow> nat \<times> int" where
  "float_digits m e =
     (if e \<ge> 0 then shortest_from (Finite False m e) (m * 2 ^ nat e) 1
      else shortest_from (Finite False m e) m (2 ^ nat (- e)))"

fun str_float :: "pyfloat \<Rightarrow> string" where
  "str_float NaN = ''nan''"
| "str_float (Infinity s) = (if s then ''-inf'' else ''inf'')"
| "str_float (Finite s m e) =
     (if s then ''-'' else []) @
     (if m = 0 then ''0.0'' else format_digits (strip_zeros_of (float_digits m e)))"

subsection \<open>Python objects\<close>

text \<open>
  The values that the session's \<open>withdraw_data\<close> dictionary and the cells of a payment
  request hold, with \<open>str(x)\<close> and the truth value \<open>bool(x)\<close>.
\<close>

datatype pyval = PyNone | PyStr string | PyFloat pyfloat | PyInt int

definition py_str :: "pyval \<Rightarrow> string" where
  "py_str v = (case v of
      PyNone \<Rightarrow> ''None'' | PyStr s \<Rightarrow> s | PyFloat x \<Rightarrow> str_float x | PyInt i \<Rightarrow> str_int i)"

definition truthy :: "pyval \<Rightarrow> bool" where
  "truthy v = (case v of
      PyNone \<Rightarrow> False
    | PyStr s \<Rightarrow> s \<noteq> []
    | PyFloat x \<Rightarrow> \<not> float_eq x (Finite False 0 (- 1074))
    | PyInt i \<Rightarrow> i \<noteq> 0)"

definition py_opt :: "string option \<Rightarrow> pyval" where
  "py_opt x = (case x of None \<Rightarrow> PyNone | Some s \<Rightarrow> PyStr s)"

text \<open>\<open>d.get(key, default)\<close> on a dictionary.\<close>

definition dict_get :: "('k \<rightharpoonup> 'v) \<Rightarrow> 'k \<Rightarrow> 'v \<Rightarrow> 'v" where
  "dict_get d k dflt = (case d k of Some v \<Rightarrow> v | None \<Rightarrow> dflt)"

section \<open>config.py\<close>

definition USER_HEADERS :: "string list" where
  "USER_HEADERS = [''Username'', ''First Name'', ''Last Name'', ''Preferred Payment Mode'',
     ''UPI ID'', ''Bank Account'', ''IFSC Code'', ''Balance'']"

definition PAYMENT_HEADERS :: "string list" where
  "PAYMENT_HEADERS = [''Username'', ''Amount'', ''Payment Mode'', ''UPI ID/Bank Account'',
     ''IFSC Code'', ''Request Date'', ''Status'']"

definition newline :: string where
  "newline = [CHR 0x0A]"

definition WELCOME_MESSAGE :: string where
  "WELCOME_MESSAGE = ''Welcome to the Employee Payment System!'' @ newline @
     ''Choose an option:'' @ newline @ ''1. Signup'' @ newline @ ''2. Login''"

definition MAIN_MENU :: string where
  "MAIN_MENU = ''Main Menu:'' @ newline @ ''1. Check Balance'' @ newline @
     ''2. Withdraw Funds'' @ newline @ ''3. Join Channel'' @ newline @ ''4. Update Profile''"

definition DEFAULT_PAYMENT_DATE :: string where
  "DEFAULT_PAYMENT_DATE = ''15th of the month''"

definition INVOICE_BOT_USERNAME :: string where
  "INVOICE_BOT_USERNAME = ''invoice_earnifybot''"

section \<open>The remote spreadsheet\<close>

text \<open>
  The two tables live in a remote spreadsheet. Each table is its first row (the header
  row, \<open>[]\<close> when it is empty) and the rows from row 2 on, as \<open>values().get\<close> returns
  them for the range \<open>A2:Z\<close>: a list of rows, each a list of cell texts, an empty row
  being \<open>[]\<close>. A cell of a Payments row is the Python object that the bot sent.

  Every call of the API (\<open>.execute()\<close>) may raise. The field \<open>faults\<close> is the schedule
  of the calls to come: \<open>None\<close> lets the next call through, \<open>Some msg\<close> makes it raise
  an exception whose text is \<open>msg\<close>; once the schedule is used up every call succeeds.
  A helper without credentials (\<open>users_sheet\<close> is \<open>None\<close>) raises at every call, which
  is a schedule of faults only. \<open>clock\<close> is what
  \<open>datetime.now().strftime("%Y-%m-%d %H:%M:%S")\<close> returns.
\<close>

record world =
  users_header :: "string list"
  users_rows :: "string list list"
  payments_header :: "string list"
  payments_rows :: "pyval list list"
  faults :: "string option list"
  clock :: string

datatype table = UsersTable | PaymentsTable

definition api_call :: "world \<Rightarrow> string option \<times> world" where
  "api_call w = (case faults w of [] \<Rightarrow> (None, w) | f # fs \<Rightarrow> (f, w\<lparr>faults := fs\<rparr>))"

definition header_row :: "table \<Rightarrow> world \<Rightarrow> string list" where
  "header_row t w = (case t of UsersTable \<Rightarrow> users_header w | PaymentsTable \<Rightarrow> payments_header w)"

text \<open>Writing \<open>hs\<close> at \<open>A1\<close> overwrites the first \<open>length hs\<close> cells of row 1 and keeps the rest.\<close>

definition write_header :: "table \<Rightarrow> string list \<Rightarrow> world \<Rightarrow> world" where
  "write_header t hs w = (case t of
      UsersTable \<Rightarrow> w\<lparr>users_header := hs @ drop (length hs) (users_header w)\<rparr>
    | PaymentsTable \<Rightarrow> w\<lparr>payments_header := hs @ drop (length hs) (payments_header w)\<rparr>)"

text \<open>Writing one cell of a row; a row that is too short is filled with empty cells.\<close>

definition set_cell :: "nat \<Rightarrow> string \<Rightarrow> string list \<Rightarrow> string list" where
  "set_cell c v row = (if c < length row then row[c := v]
     else row @ replicate (c - length row) [] @ [v])"

text \<open>Writing the cell in column \<open>c\<close> (0 is column A) of sheet row \<open>r\<close> (the first data row is 2).\<close>

definition write_user_cell :: "nat \<Rightarrow> nat \<Rightarrow> string \<Rightarrow> world \<Rightarrow> world" where
  "write_user_cell r c v w =
     w\<lparr>users_rows := (users_rows w)[r - 2 := set_cell c v (users_rows w ! (r - 2))]\<rparr>"

section \<open>google\_sheets\_helper.py\<close>

definition ensure_headers :: "table \<Rightarrow> string list \<Rightarrow> world \<Rightarrow> bool \<times> world" where
  "ensure_headers t headers w =
     (case api_call w of
        (Some e, w1) \<Rightarrow> (False, w1)
      | (None, w1) \<Rightarrow>
          (let vals = (if header_row t w1 = [] then [] else [header_row t w1]) in
           if vals = [] \<or> hd vals \<noteq> headers then
             (case api_call w1 of
                (Some e, w2) \<Rightarrow> (False, w2)
              | (None, w2) \<Rightarrow> (True, write_header t headers w2))
           else (True, w1)))"

definition get_all_users :: "world \<Rightarrow> string list list \<times> world" where
  "get_all_users w =
     (let (ok, w1) = ensure_headers UsersTable USER_HEADERS w in
      case api_call w1 of
        (Some e, w2) \<Rightarrow> ([], w2)
      | (None, w2) \<Rightarrow> (users_rows w2, w2))"

text \<open>The loop of \<open>find_user_by_username\<close> over \<open>enumerate(users, start=i)\<close>.\<close>

fun find_row :: "string option \<Rightarrow> nat \<Rightarrow> string list list \<Rightarrow> (string list \<times> nat) option" where
  "find_row uname i [] = None"
| "find_row uname i (user # rest) =
     (if user \<noteq> [] \<and> Some (hd user) = uname then Some (user, i)
      else find_row uname (Suc i) rest)"

definition find_user_by_username ::
    "string option \<Rightarrow> world \<Rightarrow> (string list \<times> nat) option \<times> world" where
  "find_user_by_username uname w =
     (let (users, w1) = get_all_users w in (find_row uname 2 users, w1))"

text \<open>
  \<open>if existing_user:\<close> and \<open>if not user_data:\<close> test the row that was found: \<open>None\<close> and
  the empty list are false.
\<close>

definition found_truthy :: "(string list \<times> nat) option \<Rightarrow> bool" where
  "found_truthy r = (case r of None \<Rightarrow> False | Some (row, i) \<Rightarrow> row \<noteq> [])"

definition sheets_register_user :: "string list \<Rightarrow> world \<Rightarrow> (bool \<times> string) \<times> world" where
  "sheets_register_user user_row w =
     (let (ok, w1) = ensure_headers UsersTable USER_HEADERS w in
      case user_row of
        [] \<Rightarrow> ((False, ''Error: list index out of range''), w1)
      | u # cells \<Rightarrow>
          (let (existing_user, w2) = find_user_by_username (Some u) w1 in
           if found_truthy existing_user then ((False, ''Username already exists''), w2)
           else
             (case api_call w2 of
                (Some e, w3) \<Rightarrow> ((False, ''Error: '' @ e), w3)
              | (None, w3) \<Rightarrow>
                  ((True, ''User registered successfully''),
                   w3\<lparr>users_rows := users_rows w3 @ [user_row]\<rparr>))))"

definition get_user_balance :: "string option \<Rightarrow> world \<Rightarrow> string \<times> world" where
  "get_user_balance uname w =
     (let (found, w1) = find_user_by_username uname w in
      case found of
        Some (row, i) \<Rightarrow> (if row \<noteq> [] \<and> length row \<ge> 8 then (row ! 7, w1) else (''0'', w1))
      | None \<Rightarrow> (''0'', w1))"

text \<open>\<open>new_balance\<close> is the text \<open>str(new_balance)\<close> that the caller's number prints as.\<close>

definition update_user_balance :: "string option \<Rightarrow> string \<Rightarrow> world \<Rightarrow> (bool \<times> string) \<times> world" where
  "update_user_balance uname new_balance w =
     (let (found, w1) = find_user_by_username uname w in
      case found of
        None \<Rightarrow> ((False, ''User not found''), w1)
      | Some (row, row_index) \<Rightarrow>
          if row = [] then ((False, ''User not found''), w1)
          else
            (case api_call w1 of
               (Some e, w2) \<Rightarrow> ((False, ''Error: '' @ e), w2)
             | (None, w2) \<Rightarrow>
                 ((True, ''Balance updated successfully''), write_user_cell row_index 7 new_balance w2)))"

text \<open>The dictionary that \<open>get_user_payment_info\<close> builds always has its four keys.\<close>

record payment_info =
  preferred_mode :: "string option"
  upi_id :: "string option"
  bank_account :: "string option"
  ifsc_code :: "string option"

definition cell_at :: "string list \<Rightarrow> nat \<Rightarrow> string option" where
  "cell_at row c = (if length row > c then Some (row ! c) else None)"

definition get_user_payment_info :: "string option \<Rightarrow> world \<Rightarrow> payment_info option \<times> world" where
  "get_user_payment_info uname w =
     (let (found, w1) = find_user_by_username uname w in
      case found of
        None \<Rightarrow> (None, w1)
      | Some (row, i) \<Rightarrow>
          if row = [] then (None, w1)
          else (Some \<lparr>preferred_mode = cell_at row 3, upi_id = cell_at row 4,
                      bank_account = cell_at row 5, ifsc_code = cell_at row 6\<rparr>, w1))"

definition field_map :: "string \<rightharpoonup> nat" where
  "field_map = [''first_name'' \<mapsto> 1, ''last_name'' \<mapsto> 2, ''preferred_payment_mode'' \<mapsto> 3,
     ''upi_id'' \<mapsto> 4, ''bank_account'' \<mapsto> 5, ''ifsc_code'' \<mapsto> 6]"

text \<open>\<open>str(field)\<close> for a field that may be \<open>None\<close>, and \<open>field.replace('_', ' ').title()\<close>.\<close>

definition str_opt :: "string option \<Rightarrow> string" where
  "str_opt x = (case x of None \<Rightarrow> ''None'' | Some s \<Rightarrow> s)"

definition lower :: "string \<Rightarrow> string" where
  "lower s = map lower_char s"

fun title_from :: "bool \<Rightarrow> string \<Rightarrow> string" where
  "title_from prev_cased [] = []"
| "title_from prev_cased (c # cs) =
     (if is_lower_char c \<or> is_upper_char c
      then (if prev_cased then lower_char c else upper_char c) # title_from True cs
      else c # title_from False cs)"

definition title_field :: "string \<Rightarrow> string" where
  "title_field f = title_from False (map (\<lambda>c. if c = CHR ''_'' then CHR '' '' else c) f)"

definition update_user_profile ::
    "string option \<Rightarrow> string option \<Rightarrow> string \<Rightarrow> world \<Rightarrow> (bool \<times> string) \<times> world" where
  "update_user_profile uname field v w =
     (let (found, w1) = find_user_by_username uname w in
      case found of
        None \<Rightarrow> ((False, ''User not found''), w1)
      | Some (row, row_index) \<Rightarrow>
          if row = [] then ((False, ''User not found''), w1)
          else
            (case (case field of None \<Rightarrow> None | Some f \<Rightarrow> field_map f) of
               None \<Rightarrow> ((False, ''Invalid field: '' @ str_opt field), w1)
             | Some column_index \<Rightarrow>
                 (case api_call w1 of
                    (Some e, w2) \<Rightarrow> ((False, ''Error: '' @ e), w2)
                  | (None, w2) \<Rightarrow>
                      ((True, title_field (str_opt field) @ '' updated successfully''),
                       write_user_cell row_index column_index v w2))))"

definition add_payment_request ::
    "pyval list \<Rightarrow> world \<Rightarrow> (bool \<times> string) \<times> world" where
  "add_payment_request payment_data w =
     (let (ok, w1) = ensure_headers PaymentsTable PAYMENT_HEADERS w;
          payment_row = payment_data @ [PyStr (clock w1), PyStr ''Pending'']
      in case api_call w1 of
           (Some e, w2) \<Rightarrow> ((False, ''Error: '' @ e), w2)
         | (None, w2) \<Rightarrow>
             ((True, ''Payment request added successfully''),
              w2\<lparr>payments_rows := payments_rows w2 @ [payment_row]\<rparr>))"

section \<open>user\_manager.py\<close>

type_synonym user_id = int

record session =
  username :: "string option"
  logged_in :: bool
  registration_state :: "string option"
  registration_data :: "string \<rightharpoonup> string"
  withdraw_state :: "string option"
  withdraw_data :: "string \<rightharpoonup> pyval"
  update_profile_state :: "string option"
  update_field :: "string option"

text \<open>
  The state of the process: the sessions of \<open>UserManager\<close>, for each Telegram user whether
  \<open>context.user_data\<close> holds the key \<open>"login_username_provided"\<close>, and the spreadsheet.
\<close>

record bot =
  active_users :: "user_id \<rightharpoonup> session"
  login_username_provided :: "user_id \<Rightarrow> bool"
  sheets :: world

definition new_session :: session where
  "new_session = \<lparr>username = None, logged_in = False, registration_state = None,
     registration_data = Map.empty, withdraw_state = None, withdraw_data = Map.empty,
     update_profile_state = None, update_field = None\<rparr>"

definition start_session :: "user_id \<Rightarrow> bot \<Rightarrow> bot" where
  "start_session uid b = (case active_users b uid of
      None \<Rightarrow> b\<lparr>active_users := (active_users b)(uid \<mapsto> new_session)\<rparr>
    | Some s \<Rightarrow> b)"

definition end_session :: "user_id \<Rightarrow> bot \<Rightarrow> bot" where
  "end_session uid b = (case active_users b uid of
      None \<Rightarrow> b
    | Some s \<Rightarrow> b\<lparr>active_users := (active_users b)(uid := None)\<rparr>)"

definition is_logged_in :: "user_id \<Rightarrow> bot \<Rightarrow> bool" where
  "is_logged_in uid b = (case active_users b uid of None \<Rightarrow> False | Some s \<Rightarrow> logged_in s)"

definition get_username :: "user_id \<Rightarrow> bot \<Rightarrow> string option" where
  "get_username uid b = (if is_logged_in uid b
     then (case active_users b uid of None \<Rightarrow> None | Some s \<Rightarrow> username s) else None)"

text \<open>The setters share one shape: \<open>if user_id in self.active_users: ...[key] = value\<close>.\<close>

definition set_in_session :: "user_id \<Rightarrow> (session \<Rightarrow> session) \<Rightarrow> bot \<Rightarrow> bot" where
  "set_in_session uid f b = (case active_users b uid of
      None \<Rightarrow> b
    | Some s \<Rightarrow> b\<lparr>active_users := (active_users b)(uid \<mapsto> f s)\<rparr>)"

definition set_registration_state :: "user_id \<Rightarrow> string option \<Rightarrow> bot \<Rightarrow> bot" where
  "set_registration_state uid st b = set_in_session uid (\<lambda>s. s\<lparr>registration_state := st\<rparr>) b"

definition get_registration_state :: "user_id \<Rightarrow> bot \<Rightarrow> string option" where
  "get_registration_state uid b =
     (case active_users b uid of None \<Rightarrow> None | Some s \<Rightarrow> registration_state s)"

definition set_registration_data :: "user_id \<Rightarrow> string \<Rightarrow> string \<Rightarrow> bot \<Rightarrow> bot" where
  "set_registration_data uid field v b =
     set_in_session uid (\<lambda>s. s\<lparr>registration_data := (registration_data s)(field \<mapsto> v)\<rparr>) b"

definition get_registration_data :: "user_id \<Rightarrow> bot \<Rightarrow> (string \<rightharpoonup> string)" where
  "get_registration_data uid b =
     (case active_users b uid of None \<Rightarrow> Map.empty | Some s \<Rightarrow> registration_data s)"

definition login_user :: "user_id \<Rightarrow> string \<Rightarrow> bot \<Rightarrow> (py_error + bool) \<times> bot" where
  "login_user uid uname b =
     (let (user_data, w1) = find_user_by_username (Some uname) (sheets b);
          b1 = b\<lparr>sheets := w1\<rparr>
      in if found_truthy user_data then
           (case active_users b1 uid of
              None \<Rightarrow> (Inl KeyError, b1)
            | Some s \<Rightarrow>
                (Inr True,
                 b1\<lparr>active_users := (active_users b1)(uid \<mapsto> s\<lparr>username := Some uname, logged_in := True\<rparr>)\<rparr>))
         else (Inr False, b1))"

text \<open>The row that \<open>register_user\<close> prepares from the collected answers.\<close>

definition user_row :: "(string \<rightharpoonup> string) \<Rightarrow> string list" where
  "user_row data =
     (let uname = dict_get data ''username'' [];
          first_name = dict_get data ''first_name'' [];
          last_name = dict_get data ''last_name'' [];
          payment_mode = dict_get data ''payment_mode'' []
      in [uname, first_name, last_name, payment_mode] @
         (if payment_mode = ''UPI'' then [dict_get data ''upi_id'' [], [], []]
          else if payment_mode = ''Bank Account''
          then [[], dict_get data ''bank_account'' [], dict_get data ''ifsc_code'' []]
          else [[], [], []]) @
         [''0''])"

definition register_user :: "user_id \<Rightarrow> bot \<Rightarrow> (py_error + bool \<times> string) \<times> bot" where
  "register_user uid b =
     (case active_users b uid of
        None \<Rightarrow> (Inl KeyError, b)
      | Some s \<Rightarrow>
          (let data = registration_data s;
               ((success, message), w1) = sheets_register_user (user_row data) (sheets b);
               b1 = b\<lparr>sheets := w1\<rparr>
           in if success then
                (Inr (success, message),
                 b1\<lparr>active_users := (active_users b1)
                      (uid \<mapsto> s\<lparr>username := Some (dict_get data ''username'' []), logged_in := True\<rparr>)\<rparr>)
              else (Inr (success, message), b1)))"

definition set_withdraw_state :: "user_id \<Rightarrow> string option \<Rightarrow> bot \<Rightarrow> bot" where
  "set_withdraw_state uid st b = set_in_session uid (\<lambda>s. s\<lparr>withdraw_state := st\<rparr>) b"

definition get_withdraw_state :: "user_id \<Rightarrow> bot \<Rightarrow> string option" where
  "get_withdraw_state uid b =
     (case active_users b uid of None \<Rightarrow> None | Some s \<Rightarrow> withdraw_state s)"

definition set_withdraw_data :: "user_id \<Rightarrow> string \<Rightarrow> pyval \<Rightarrow> bot \<Rightarrow> bot" where
  "set_withdraw_data uid field v b =
     set_in_session uid (\<lambda>s. s\<lparr>withdraw_data := (withdraw_data s)(field \<mapsto> v)\<rparr>) b"

definition get_withdraw_data :: "user_id \<Rightarrow> bot \<Rightarrow> (string \<rightharpoonup> pyval)" where
  "get_withdraw_data uid b =
     (case active_users b uid of None \<Rightarrow> Map.empty | Some s \<Rightarrow> withdraw_data s)"

definition set_update_profile_state :: "user_id \<Rightarrow> string option \<Rightarrow> bot \<Rightarrow> bot" where
  "set_update_profile_state uid st b = set_in_session uid (\<lambda>s. s\<lparr>update_profile_state := st\<rparr>) b"

definition get_update_profile_state :: "user_id \<Rightarrow> bot \<Rightarrow> string option" where
  "get_update_profile_state uid b =
     (case active_users b uid of None \<Rightarrow> None | Some s \<Rightarrow> update_profile_state s)"

definition set_update_field :: "user_id \<Rightarrow> string option \<Rightarrow> bot \<Rightarrow> bot" where
  "set_update_field uid field b = set_in_session uid (\<lambda>s. s\<lparr>update_field := field\<rparr>) b"

definition get_update_field :: "user_id \<Rightarrow> bot \<Rightarrow> string option" where
  "get_update_field uid b =
     (case active_users b uid of None \<Rightarrow> None | Some s \<Rightarrow> update_field s)"

section \<open>handlers.py\<close>

text \<open>
  A handler takes the Telegram user, the text of the message and the state of the bot.
  It returns what it did with \<open>update.message.reply_text\<close> (every path sends at most one
  message), or the exception that it did not catch, and the state that it left.
\<close>

datatype keyboard = ReplyKeyboardMarkup "string list list" | ReplyKeyboardRemove | NoMarkup

datatype outcome = Reply string keyboard | NoReply | Raised py_error

definition get_welcome_keyboard :: keyboard where
  "get_welcome_keyboard = ReplyKeyboardMarkup [[''1. Signup'', ''2. Login'']]"

definition get_main_menu_keyboard :: keyboard where
  "get_main_menu_keyboard = ReplyKeyboardMarkup
     [[''1. Check Balance''], [''2. Withdraw Funds''], [''3. Join Channel''],
      [''4. Update Profile''], [''Logout'']]"

definition get_payment_mode_keyboard :: keyboard where
  "get_payment_mode_keyboard = ReplyKeyboardMarkup [[''UPI'', ''Bank Account'']]"

definition get_yes_no_keyboard :: keyboard where
  "get_yes_no_keyboard = ReplyKeyboardMarkup [[''Yes'', ''No'']]"

definition get_profile_update_keyboard :: keyboard where
  "get_profile_update_keyboard = ReplyKeyboardMarkup
     [[''First Name'', ''Last Name''], [''Payment Mode'', ''UPI ID''],
      [''Bank Account'', ''IFSC Code''], [''Back to Main Menu'']]"

text \<open>The rupee sign of the replies, in UTF-8.\<close>

definition rupee :: string where
  "rupee = [CHR 0xE2, CHR 0x82, CHR 0xB9]"

text \<open>\<open>if state:\<close> and \<open>if not username:\<close> on a value that is \<open>None\<close> or a string.\<close>

definition str_truthy :: "string option \<Rightarrow> bool" where
  "str_truthy x = (case x of None \<Rightarrow> False | Some s \<Rightarrow> s \<noteq> [])"

text \<open>
  \<open>state = get_state(user_id)\<close> followed by \<open>if state:\<close>: the state that the branch is
  entered with, if it is entered.
\<close>

definition if_state :: "string option \<Rightarrow> string option" where
  "if_state x = (if str_truthy x then x else None)"

definition with_sheets :: "bot \<Rightarrow> world \<Rightarrow> bot" where
  "with_sheets b w = b\<lparr>sheets := w\<rparr>"

definition start :: "user_id \<Rightarrow> bot \<Rightarrow> outcome \<times> bot" where
  "start uid b = (Reply WELCOME_MESSAGE get_welcome_keyboard, start_session uid b)"

definition main_menu :: "user_id \<Rightarrow> bot \<Rightarrow> outcome \<times> bot" where
  "main_menu uid b =
     (if \<not> is_logged_in uid b then (Reply ''You need to login first.'' get_welcome_keyboard, b)
      else (Reply MAIN_MENU get_main_menu_keyboard, b))"

definition logout :: "user_id \<Rightarrow> bot \<Rightarrow> outcome \<times> bot" where
  "logout uid b =
     (Reply ''You have been logged out. Type /start to begin again.'' ReplyKeyboardRemove,
      end_session uid b)"

subsection \<open>Registration\<close>

definition start_registration :: "user_id \<Rightarrow> bot \<Rightarrow> outcome \<times> bot" where
  "start_registration uid b =
     (Reply ''Please enter your desired username:'' ReplyKeyboardRemove,
      set_registration_state uid (Some ''awaiting_username'') b)"

definition summary_head :: "(string \<rightharpoonup> string) \<Rightarrow> string" where
  "summary_head data =
     ''Please confirm your details:'' @ newline @
     ''Username: '' @ dict_get data ''username'' [] @ newline @
     ''Name: '' @ dict_get data ''first_name'' [] @ '' '' @ dict_get data ''last_name'' [] @ newline @
     ''Payment Mode: '' @ dict_get data ''payment_mode'' [] @ newline"

definition handle_registration :: "user_id \<Rightarrow> string \<Rightarrow> string \<Rightarrow> bot \<Rightarrow> outcome \<times> bot" where
  "handle_registration uid text state b =
     (if state = ''awaiting_username'' then
        (let (existing_user, w1) = find_user_by_username (Some text) (sheets b);
             b1 = with_sheets b w1
         in if found_truthy existing_user then
              (Reply ''This username already exists. Please choose another username:'' NoMarkup, b1)
            else
              (Reply ''Please enter your first name:'' NoMarkup,
               set_registration_state uid (Some ''awaiting_first_name'')
                 (set_registration_data uid ''username'' text b1)))
      else if state = ''awaiting_first_name'' then
        (Reply ''Please enter your last name:'' NoMarkup,
         set_registration_state uid (Some ''awaiting_last_name'')
           (set_registration_data uid ''first_name'' text b))
      else if state = ''awaiting_last_name'' then
        (Reply ''Please select your preferred payment mode:'' get_payment_mode_keyboard,
         set_registration_state uid (Some ''awaiting_payment_mode'')
           (set_registration_data uid ''last_name'' text b))
      else if state = ''awaiting_payment_mode'' then
        (if text \<notin> set [''UPI'', ''Bank Account''] then
           (Reply ''Please select a valid payment mode:'' get_payment_mode_keyboard, b)
         else
           (let b1 = set_registration_data uid ''payment_mode'' text b
            in if text = ''UPI'' then
                 (Reply ''Please enter your UPI ID:'' ReplyKeyboardRemove,
                  set_registration_state uid (Some ''awaiting_upi_id'') b1)
               else
                 (Reply ''Please enter your Bank Account Number:'' ReplyKeyboardRemove,
                  set_registration_state uid (Some ''awaiting_bank_account'') b1)))
      else if state = ''awaiting_upi_id'' then
        (let b1 = set_registration_state uid (Some ''awaiting_confirmation'')
                    (set_registration_data uid ''upi_id'' text b);
             data = get_registration_data uid b1
         in (Reply (summary_head data @ ''UPI ID: '' @ dict_get data ''upi_id'' [] @
                    newline @ newline @ ''Is this correct?'') get_yes_no_keyboard, b1))
      else if state = ''awaiting_bank_account'' then
        (Reply ''Please enter your IFSC Code:'' NoMarkup,
         set_registration_state uid (Some ''awaiting_ifsc_code'')
           (set_registration_data uid ''bank_account'' text b))
      else if state = ''awaiting_ifsc_code'' then
        (let b1 = set_registration_state uid (Some ''awaiting_confirmation'')
                    (set_registration_data uid ''ifsc_code'' text b);
             data = get_registration_data uid b1
         in (Reply (summary_head data @ ''Bank Account: '' @ dict_get data ''bank_account'' [] @
                    newline @ ''IFSC Code: '' @ dict_get data ''ifsc_code'' [] @
                    newline @ newline @ ''Is this correct?'') get_yes_no_keyboard, b1))
      else if state = ''awaiting_confirmation'' then
        (if lower text = ''yes'' then
           (case register_user uid b of
              (Inl err, b1) \<Rightarrow> (Raised err, b1)
            | (Inr (success, message), b1) \<Rightarrow>
                if success then
                  (let b2 = set_registration_state uid None b1
                   in (Reply (''Registration successful! You are now logged in as '' @
                              str_opt (get_username uid b2) @ ''.'') get_main_menu_keyboard, b2))
                else
                  (Reply (''Registration failed: '' @ message @ ''. Please try again.'')
                     get_welcome_keyboard, b1))
         else
           (Reply ''Registration cancelled. Please start again if you wish to register.''
              get_welcome_keyboard,
            set_registration_state uid None b))
      else (NoReply, b))"

subsection \<open>Login\<close>

definition prompt_login_username :: "user_id \<Rightarrow> bot \<Rightarrow> outcome \<times> bot" where
  "prompt_login_username uid b =
     (Reply ''Please enter your username:'' ReplyKeyboardRemove,
      b\<lparr>login_username_provided := (login_username_provided b)(uid := True)\<rparr>)"

text \<open>\<open>del context.user_data["login_username_provided"]\<close> raises when the key is not there.\<close>

definition process_login :: "user_id \<Rightarrow> string \<Rightarrow> bot \<Rightarrow> outcome \<times> bot" where
  "process_login uid text b =
     (case login_user uid text b of
        (Inl err, b1) \<Rightarrow> (Raised err, b1)
      | (Inr ok, b1) \<Rightarrow>
          if \<not> login_username_provided b1 uid then (Raised KeyError, b1)
          else
            (let b2 = b1\<lparr>login_username_provided := (login_username_provided b1)(uid := False)\<rparr>
             in if ok then
                  (Reply (''Login successful! Welcome back, '' @ text @ ''.'') get_main_menu_keyboard, b2)
                else (Reply ''Login failed. Username not found.'' get_welcome_keyboard, b2)))"

subsection \<open>Balance\<close>

definition check_balance :: "user_id \<Rightarrow> bot \<Rightarrow> outcome \<times> bot" where
  "check_balance uid b =
     (let uname = get_username uid b
      in if \<not> str_truthy uname then
           (Reply ''You need to be logged in to check your balance.'' get_welcome_keyboard, b)
         else
           (let (balance, w1) = get_user_balance uname (sheets b)
            in (Reply (''Your current balance is: '' @ rupee @ balance) get_main_menu_keyboard,
                with_sheets b w1)))"

subsection \<open>Withdrawal\<close>

definition start_withdrawal :: "user_id \<Rightarrow> bot \<Rightarrow> outcome \<times> bot" where
  "start_withdrawal uid b =
     (let uname = get_username uid b
      in if \<not> str_truthy uname then
           (Reply ''You need to be logged in to withdraw funds.'' get_welcome_keyboard, b)
         else
           (Reply ''Please enter the amount you wish to withdraw:'' ReplyKeyboardRemove,
            set_withdraw_state uid (Some ''awaiting_amount'') b))"

definition float_zero :: pyfloat where
  "float_zero = Finite False 0 (- 1074)"

text \<open>\<open>current_balance - amount\<close>, for the object that \<open>withdraw_data\<close> holds as the amount.\<close>

definition balance_minus :: "pyfloat \<Rightarrow> pyval \<Rightarrow> py_error + pyfloat" where
  "balance_minus current_balance amount = (case amount of
      PyFloat a \<Rightarrow> Inr (float_sub current_balance a)
    | PyInt i \<Rightarrow> Inr (float_sub current_balance (float_of_int i))
    | PyStr t \<Rightarrow> Inl TypeError
    | PyNone \<Rightarrow> Inl TypeError)"

text \<open>
  The two cells that \<open>process_withdrawal_request\<close> puts after the payment mode: the
  answers in \<open>withdraw_data\<close> or, when one is missing or empty, the cells of the profile.
  The result is \<open>None\<close> when the profile is not found (\<open>payment_info\<close> is \<open>None\<close> then, and
  \<open>payment_info.get\<close> raises).
\<close>

definition payment_details ::
    "string option \<Rightarrow> (string \<rightharpoonup> pyval) \<Rightarrow> pyval \<Rightarrow> world \<Rightarrow> pyval list option \<times> world" where
  "payment_details uname wd payment_mode w =
     (if payment_mode = PyStr ''UPI'' then
        (if \<not> truthy (dict_get wd ''upi_id'' (PyStr [])) then
           (case get_user_payment_info uname w of
              (None, w1) \<Rightarrow> (None, w1)
            | (Some info, w1) \<Rightarrow> (Some [py_opt (upi_id info), PyStr []], w1))
         else (Some [dict_get wd ''upi_id'' (PyStr []), PyStr []], w))
      else
        (if \<not> truthy (dict_get wd ''bank_account'' (PyStr [])) \<or>
            \<not> truthy (dict_get wd ''ifsc_code'' (PyStr [])) then
           (case get_user_payment_info uname w of
              (None, w1) \<Rightarrow> (None, w1)
            | (Some info, w1) \<Rightarrow>
                (Some [py_opt (bank_account info), py_opt (ifsc_code info)], w1))
         else (Some [dict_get wd ''bank_account'' (PyStr []),
                     dict_get wd ''ifsc_code'' (PyStr [])], w)))"

definition process_withdrawal_request :: "user_id \<Rightarrow> pyval \<Rightarrow> bot \<Rightarrow> outcome \<times> bot" where
  "process_withdrawal_request uid payment_mode b =
     (let uname = get_username uid b;
          wd = get_withdraw_data uid b;
          amount = dict_get wd ''amount'' (PyInt 0);
          payment_data = [py_opt uname, PyStr (py_str amount), payment_mode];
          (details, w1) = payment_details uname wd payment_mode (sheets b)
      in case details of
           None \<Rightarrow> (Raised AttributeError, with_sheets b w1)
         | Some cells \<Rightarrow>
             (let ((success, message), w2) = add_payment_request (payment_data @ cells) w1
              in if success then
                   (let (balance_text, w3) = get_user_balance uname w2
                    in case py_float balance_text of
                         None \<Rightarrow> (Raised ValueError, with_sheets b w3)
                       | Some current_balance \<Rightarrow>
                           (case balance_minus current_balance amount of
                              Inl err \<Rightarrow> (Raised err, with_sheets b w3)
                            | Inr new_balance \<Rightarrow>
                                (let (updated, w4) = update_user_balance uname (str_float new_balance) w3
                                 in (Reply (''Your payment request for '' @ rupee @ py_str amount @
                                       '' has been received. It will be processed on '' @
                                       DEFAULT_PAYMENT_DATE @ ''.'' @ newline @ newline @
                                       ''Please forward a screenshot of this chat to @'' @
                                       INVOICE_BOT_USERNAME @ '' for reference.'')
                                       get_main_menu_keyboard,
                                     set_withdraw_state uid None (with_sheets b w4)))))
                 else
                   (Reply (''Failed to process withdrawal: '' @ message) get_main_menu_keyboard,
                    set_withdraw_state uid None (with_sheets b w2))))"

definition handle_withdrawal :: "user_id \<Rightarrow> string \<Rightarrow> string \<Rightarrow> bot \<Rightarrow> outcome \<times> bot" where
  "handle_withdrawal uid text state b =
     (let uname = get_username uid b
      in if state = ''awaiting_amount'' then
           (case py_float text of
              None \<Rightarrow> (Reply ''Please enter a valid number:'' NoMarkup, b)
            | Some amount \<Rightarrow>
                if float_le amount float_zero then
                  (Reply ''Please enter a positive amount:'' NoMarkup, b)
                else
                  (let b1 = set_withdraw_data uid ''amount'' (PyFloat amount) b;
                       (balance_text, w1) = get_user_balance uname (sheets b1);
                       b2 = with_sheets b1 w1
                   in case py_float balance_text of
                        None \<Rightarrow> (Reply ''Please enter a valid number:'' NoMarkup, b2)
                      | Some balance \<Rightarrow>
                          if float_gt amount balance then
                            (Reply (''Insufficient balance. Your current balance is: '' @ rupee @
                                    str_float balance) get_main_menu_keyboard,
                             set_withdraw_state uid None b2)
                          else
                            (case get_user_payment_info uname (sheets b2) of
                               (None, w2) \<Rightarrow> (Raised AttributeError, with_sheets b2 w2)
                             | (Some info, w2) \<Rightarrow>
                                 (Reply (''Your default payment mode is: '' @
                                         str_opt (preferred_mode info) @ newline @
                                         ''Would you like to use this payment mode?'')
                                    get_yes_no_keyboard,
                                  set_withdraw_state uid (Some ''awaiting_payment_mode_confirmation'')
                                    (with_sheets b2 w2)))))
         else if state = ''awaiting_payment_mode_confirmation'' then
           (if lower text = ''yes'' then
              (case get_user_payment_info uname (sheets b) of
                 (None, w1) \<Rightarrow> (Raised AttributeError, with_sheets b w1)
               | (Some info, w1) \<Rightarrow>
                   process_withdrawal_request uid (py_opt (preferred_mode info)) (with_sheets b w1))
            else
              (Reply ''Please select your preferred payment mode for this withdrawal:''
                 get_payment_mode_keyboard,
               set_withdraw_state uid (Some ''awaiting_new_payment_mode'') b))
         else if state = ''awaiting_new_payment_mode'' then
           (if text \<notin> set [''UPI'', ''Bank Account''] then
              (Reply ''Please select a valid payment mode:'' get_payment_mode_keyboard, b)
            else if text = ''UPI'' then
              (Reply ''Please enter your UPI ID:'' ReplyKeyboardRemove,
               set_withdraw_state uid (Some ''awaiting_upi_id'')
                 (set_withdraw_data uid ''payment_mode'' (PyStr ''UPI'') b))
            else
              (Reply ''Please enter your Bank Account Number:'' ReplyKeyboardRemove,
               set_withdraw_state uid (Some ''awaiting_bank_account'')
                 (set_withdraw_data uid ''payment_mode'' (PyStr ''Bank Account'') b)))
         else if state = ''awaiting_upi_id'' then
           process_withdrawal_request uid (PyStr ''UPI'') (set_withdraw_data uid ''upi_id'' (PyStr text) b)
         else if state = ''awaiting_bank_account'' then
           (Reply ''Please enter your IFSC Code:'' NoMarkup,
            set_withdraw_state uid (Some ''awaiting_ifsc_code'')
              (set_withdraw_data uid ''bank_account'' (PyStr text) b))
         else if state = ''awaiting_ifsc_code'' then
           process_withdrawal_request uid (PyStr ''Bank Account'')
             (set_withdraw_data uid ''ifsc_code'' (PyStr text) b)
         else (NoReply, b))"

subsection \<open>Channel\<close>

definition join_channel :: "user_id \<Rightarrow> bot \<Rightarrow> outcome \<times> bot" where
  "join_channel uid b =
     (if \<not> is_logged_in uid b then
        (Reply ''You need to be logged in to join the channel.'' get_welcome_keyboard, b)
      else
        (Reply (''To join our channel, please click this link: https://t.me/employeechannel'' @
                newline @ ''This is where we share important announcements and updates.'')
           get_main_menu_keyboard, b))"

subsection \<open>Profile update\<close>

definition start_profile_update :: "user_id \<Rightarrow> bot \<Rightarrow> outcome \<times> bot" where
  "start_profile_update uid b =
     (if \<not> is_logged_in uid b then
        (Reply ''You need to be logged in to update your profile.'' get_welcome_keyboard, b)
      else
        (Reply ''Which part of your profile would you like to update?'' get_profile_update_keyboard,
         set_update_profile_state uid (Some ''selecting_field'') b))"

definition field_mapping :: "string \<rightharpoonup> string" where
  "field_mapping = [''First Name'' \<mapsto> ''first_name'', ''Last Name'' \<mapsto> ''last_name'',
     ''Payment Mode'' \<mapsto> ''payment_mode'', ''UPI ID'' \<mapsto> ''upi_id'',
     ''Bank Account'' \<mapsto> ''bank_account'', ''IFSC Code'' \<mapsto> ''ifsc_code'']"

definition handle_profile_update :: "user_id \<Rightarrow> string \<Rightarrow> string \<Rightarrow> bot \<Rightarrow> outcome \<times> bot" where
  "handle_profile_update uid text state b =
     (let uname = get_username uid b
      in if state = ''selecting_field'' then
           (if text = ''Back to Main Menu'' then
              main_menu uid (set_update_profile_state uid None b)
            else
              (case field_mapping text of
                 None \<Rightarrow>
                   (Reply ''Please select a valid field to update:'' get_profile_update_keyboard, b)
               | Some field \<Rightarrow>
                   (let b1 = set_update_field uid (Some field) b
                    in if field = ''payment_mode'' then
                         (Reply ''Please select your new preferred payment mode:''
                            get_payment_mode_keyboard,
                          set_update_profile_state uid (Some ''updating_payment_mode'') b1)
                       else
                         (Reply (''Please enter your new '' @ text @ '':'') ReplyKeyboardRemove,
                          set_update_profile_state uid (Some ''updating_field'') b1))))
         else if state = ''updating_payment_mode'' then
           (if text \<notin> set [''UPI'', ''Bank Account''] then
              (Reply ''Please select a valid payment mode:'' get_payment_mode_keyboard, b)
            else
              (let field = get_update_field uid b;
                   ((success, message), w1) = update_user_profile uname field text (sheets b);
                   b1 = set_update_profile_state uid None (with_sheets b w1)
               in if success then
                    (Reply (''Your payment mode has been updated to '' @ text @ ''.'' @
                            newline @ newline @
                            ''You may also want to update your UPI ID or Bank Account details.'')
                       get_main_menu_keyboard, b1)
                  else
                    (Reply (''Failed to update profile: '' @ message) get_main_menu_keyboard, b1)))
         else if state = ''updating_field'' then
           (let field = get_update_field uid b;
                ((success, message), w1) = update_user_profile uname field text (sheets b);
                b1 = set_update_profile_state uid None (with_sheets b w1)
            in if success then
                 (Reply ''Your profile has been updated successfully.'' get_main_menu_keyboard, b1)
               else
                 (Reply (''Failed to update profile: '' @ message) get_main_menu_keyboard, b1))
         else (NoReply, b))"

subsection \<open>The message handler\<close>

definition handle_message :: "user_id \<Rightarrow> string \<Rightarrow> bot \<Rightarrow> outcome \<times> bot" where
  "handle_message uid text b0 =
     (let b = (if active_users b0 uid = None then start_session uid b0 else b0)
      in if text = ''1. Signup'' \<or> text = ''Signup'' then start_registration uid b
         else if text = ''2. Login'' \<or> text = ''Login'' then prompt_login_username uid b
         else if text = ''Logout'' then logout uid b
         else if is_logged_in uid b \<and> (text = ''1. Check Balance'' \<or> text = ''Check Balance'')
           then check_balance uid b
         else if is_logged_in uid b \<and> (text = ''2. Withdraw Funds'' \<or> text = ''Withdraw Funds'')
           then start_withdrawal uid b
         else if is_logged_in uid b \<and> (text = ''3. Join Channel'' \<or> text = ''Join Channel'')
           then join_channel uid b
         else if is_logged_in uid b \<and> (text = ''4. Update Profile'' \<or> text = ''Update Profile'')
           then start_profile_update uid b
         else if is_logged_in uid b \<and> text = ''Back to Main Menu'' then main_menu uid b
         else
           (case if_state (get_registration_state uid b) of
              Some reg_state \<Rightarrow> handle_registration uid text reg_state b
            | None \<Rightarrow>
                if \<not> is_logged_in uid b \<and> login_username_provided b uid then process_login uid text b
                else
                  (case if_state (get_withdraw_state uid b) of
                     Some wstate \<Rightarrow> handle_withdrawal uid text wstate b
                   | None \<Rightarrow>
                       (case if_state (get_update_profile_state uid b) of
                          Some ustate \<Rightarrow> handle_profile_update uid text ustate b
                        | None \<Rightarrow>
                            (Reply (''I didn'' @ [CHR 0x27] @ ''t understand that. Please use the menu options.'')
                               (if \<not> is_logged_in uid b then get_welcome_keyboard
                                else get_main_menu_keyboard), b)))))"

section \<open>Example states\<close>

definition example_sheets :: world where
  "example_sheets = \<lparr>users_header = USER_HEADERS,
     users_rows = [[''alice'', ''Alice'', ''Lee'', ''UPI'', ''alice@upi'', [], [], ''100'']],
     payments_header = PAYMENT_HEADERS, payments_rows = [], faults = [],
     clock = ''2024-01-01 12:00:00''\<rparr>"

definition alice_session :: session where
  "alice_session = new_session\<lparr>username := Some ''alice'', logged_in := True\<rparr>"

definition example_bot :: bot where
  "example_bot = \<lparr>active_users = [1 \<mapsto> alice_session],
     login_username_provided = (\<lambda>uid. False), sheets = example_sheets\<rparr>"

text \<open>The same user with a negative balance in the table, in the middle of a withdrawal.\<close>

definition overdrawn_bot :: bot where
  "overdrawn_bot = \<lparr>active_users = [1 \<mapsto> alice_session\<lparr>withdraw_state := Some ''awaiting_amount''\<rparr>],
     login_username_provided = (\<lambda>uid. False),
     sheets = example_sheets\<lparr>users_rows :=
       [[''alice'', ''Alice'', ''Lee'', ''UPI'', ''alice@upi'', [], [], ''-5'']]\<rparr>\<rparr>"

text \<open>
  The balance text of a user as the table holds it, which is what \<open>get_user_balance\<close>
  returns when its calls succeed: the eighth cell of the first row of that username,
  \<open>"0"\<close> without such a row or cell.
\<close>

definition stored_balance :: "string option \<Rightarrow> world \<Rightarrow> string" where
  "stored_balance uname w = (case find_row uname 2 (users_rows w) of
      None \<Rightarrow> ''0''
    | Some (row, i) \<Rightarrow> if length row \<ge> 8 then row ! 7 else ''0'')"

text \<open>A user with a large balance.\<close>

definition rich_bot :: bot where
  "rich_bot = \<lparr>active_users = [1 \<mapsto> alice_session],
     login_username_provided = (\<lambda>uid. False),
     sheets = example_sheets\<lparr>users_rows :=
       [[''alice'', ''Alice'', ''Lee'', ''UPI'', ''alice@upi'', [], [], ''10000000000000000'']]\<rparr>\<rparr>"

text \<open>A user with the balance \<open>0.3\<close>.\<close>

definition small_bot :: bot where
  "small_bot = \<lparr>active_users = [1 \<mapsto> alice_session],
     login_username_provided = (\<lambda>uid. False),
     sheets = example_sheets\<lparr>users_rows :=
       [[''alice'', ''Alice'', ''Lee'', ''UPI'', ''alice@upi'', [], [], ''0.3'']]\<rparr>\<rparr>"

text \<open>
  The example with a spreadsheet whose sixth call fails: for a new user these are the two
  calls of the username lookup, the three calls before the append of the registration
  commit, and the append.
\<close>

definition append_fails_bot :: bot where
  "append_fails_bot = \<lparr>active_users = [1 \<mapsto> alice_session],
     login_username_provided = (\<lambda>uid. False),
     sheets = example_sheets\<lparr>faults :=
       [None, None, None, None, None, Some ''Quota exceeded'']\<rparr>\<rparr>"

text \<open>
  The example with a spreadsheet whose second and fifth calls fail: the read of the rows
  in the username lookup, and the read of the rows in the registration commit.
\<close>

definition read_fails_bot :: bot where
  "read_fails_bot = \<lparr>active_users = [1 \<mapsto> alice_session],
     login_username_provided = (\<lambda>uid. False),
     sheets = example_sheets\<lparr>faults :=
       [None, Some ''Quota exceeded'', None, None, Some ''Quota exceeded'']\<rparr>\<rparr>"

text \<open>
  The number that a finite float is, and the number that a decimal text denotes, both
  exact. \<open>exact_difference_text t b a\<close> says that the text \<open>t\<close> denotes exactly the
  difference of the numbers \<open>b\<close> and \<open>a\<close>.
\<close>

definition pow_int :: "rat \<Rightarrow> int \<Rightarrow> rat" where
  "pow_int r e = (if e \<ge> 0 then r ^ nat e else 1 / r ^ nat (- e))"

fun float_value :: "pyfloat \<Rightarrow> rat option" where
  "float_value (Finite s m e) = Some ((if s then - 1 else 1) * of_nat m * pow_int 2 e)"
| "float_value (Infinity s) = None"
| "float_value NaN = None"

definition decimal_value :: "string \<Rightarrow> rat option" where
  "decimal_value t = (case parse_decimal t of
      None \<Rightarrow> None
    | Some (neg, n, e) \<Rightarrow> Some ((if neg then - 1 else 1) * of_nat n * pow_int 10 e))"

definition exact_difference_text :: "string \<Rightarrow> pyfloat \<Rightarrow> pyfloat \<Rightarrow> bool" where
  "exact_difference_text t b a = (case (decimal_value t, float_value b, float_value a) of
      (Some v, Some x, Some y) \<Rightarrow> v = x - y
    | _ \<Rightarrow> False)"

definition username_exists :: "string \<Rightarrow> world \<Rightarrow> bool" where
  "username_exists u w = list_ex (\<lambda>row. row \<noteq> [] \<and> hd row = u) (users_rows w)"

text \<open>The texts that \<open>handle_message\<close> takes as menu choices before it looks at a dialogue.\<close>

definition menu_keyword :: "string \<Rightarrow> bool" where
  "menu_keyword t = (t \<in> set [''1. Signup'', ''Signup'', ''2. Login'', ''Login'', ''Logout'',
     ''1. Check Balance'', ''Check Balance'', ''2. Withdraw Funds'', ''Withdraw Funds'',
     ''3. Join Channel'', ''Join Channel'', ''4. Update Profile'', ''Update Profile'',
     ''Back to Main Menu''])"

text \<open>The state after the messages \<open>ts\<close> of one user, one after the other.\<close>

definition run :: "user_id \<Rightarrow> string list \<Rightarrow> bot \<Rightarrow> bot" where
  "run uid ts b = fold (\<lambda>t b'. snd (handle_message uid t b')) ts b"

section \<open>The spreadsheet helper when no call fails\<close>

lemma api_call_ok: "faults w = [] \<Longrightarrow> api_call w = (None, w)"
  by (simp add: api_call_def)

lemma api_call_rows [simp]:
  "users_rows (snd (api_call w)) = users_rows w"
  "payments_rows (snd (api_call w)) = payments_rows w"
  "clock (snd (api_call w)) = clock w"
  "users_header (snd (api_call w)) = users_header w"
  "payments_header (snd (api_call w)) = payments_header w"
  by (auto simp: api_call_def split: list.splits)

lemma ensure_headers_rows [simp]:
  "users_rows (snd (ensure_headers t hs w)) = users_rows w"
  "payments_rows (snd (ensure_headers t hs w)) = payments_rows w"
  "clock (snd (ensure_headers t hs w)) = clock w"
  by (auto simp: ensure_headers_def api_call_def write_header_def Let_def
      split: list.splits option.splits table.splits prod.splits)

lemma ensure_headers_faults:
  "faults w = [] \<Longrightarrow> faults (snd (ensure_headers t hs w)) = []"
  by (auto simp: ensure_headers_def api_call_def write_header_def Let_def
      split: list.splits option.splits table.splits prod.splits)

lemma get_all_users_rows [simp]:
  "users_rows (snd (get_all_users w)) = users_rows w"
  "payments_rows (snd (get_all_users w)) = payments_rows w"
  "clock (snd (get_all_users w)) = clock w"
  by (simp_all add: get_all_users_def case_prod_beta Let_def split: option.splits)

lemma get_all_users_ok:
  "faults w = [] \<Longrightarrow> fst (get_all_users w) = users_rows w"
  "faults w = [] \<Longrightarrow> faults (snd (get_all_users w)) = []"
  by (simp_all add: get_all_users_def case_prod_beta Let_def api_call_ok ensure_headers_faults)

lemma find_user_rows [simp]:
  "users_rows (snd (find_user_by_username u w)) = users_rows w"
  "payments_rows (snd (find_user_by_username u w)) = payments_rows w"
  "clock (snd (find_user_by_username u w)) = clock w"
  by (simp_all add: find_user_by_username_def case_prod_beta)

lemma find_user_ok:
  "faults w = [] \<Longrightarrow> fst (find_user_by_username u w) = find_row u 2 (users_rows w)"
  "faults w = [] \<Longrightarrow> faults (snd (find_user_by_username u w)) = []"
  by (simp_all add: find_user_by_username_def case_prod_beta get_all_users_ok)

lemma find_row_Some:
  "find_row u i rows = Some (row, j) \<Longrightarrow>
     row \<noteq> [] \<and> Some (hd row) = u \<and> i \<le> j \<and> j - i < length rows \<and> rows ! (j - i) = row"
proof (induction rows arbitrary: i)
  case Nil
  then show ?case by simp
next
  case (Cons r rows)
  show ?case
  proof (cases "r \<noteq> [] \<and> Some (hd r) = u")
    case True
    with Cons.prems show ?thesis by auto
  next
    case False
    with Cons.prems have "find_row u (Suc i) rows = Some (row, j)" by auto
    from Cons.IH[OF this] show ?thesis
      by (auto simp: Suc_diff_Suc less_eq_Suc_le)
  qed
qed

lemma find_row_exists:
  "list_ex (\<lambda>row. row \<noteq> [] \<and> hd row = u) rows \<Longrightarrow>
     \<exists>row j. find_row (Some u) i rows = Some (row, j)"
  by (induction rows arbitrary: i) auto

lemma find_row_None:
  "\<not> list_ex (\<lambda>row. row \<noteq> [] \<and> hd row = u) rows \<Longrightarrow> find_row (Some u) i rows = None"
  by (induction rows arbitrary: i) auto

lemma found_truthy_find_row:
  "found_truthy (find_row u i rows) = (find_row u i rows \<noteq> None)"
  by (cases "find_row u i rows") (auto simp: found_truthy_def dest: find_row_Some)


section \<open>The session store on a user without a session\<close>

lemmas session_defs = is_logged_in_def get_username_def set_in_session_def
  set_registration_state_def get_registration_state_def set_registration_data_def
  get_registration_data_def set_withdraw_state_def get_withdraw_state_def set_withdraw_data_def
  get_withdraw_data_def set_update_profile_state_def get_update_profile_state_def
  set_update_field_def get_update_field_def start_session_def end_session_def

lemma example_bot_simps [simp]:
  "active_users example_bot = [1 \<mapsto> alice_session]"
  "sheets example_bot = example_sheets"
  "login_username_provided example_bot = (\<lambda>uid. False)"
  by (simp_all add: example_bot_def)

lemma example_sheets_simps [simp]:
  "users_rows example_sheets = [[''alice'', ''Alice'', ''Lee'', ''UPI'', ''alice@upi'', [], [], ''100'']]"
  "payments_rows example_sheets = []"
  "faults example_sheets = []"
  "clock example_sheets = ''2024-01-01 12:00:00''"
  by (simp_all add: example_sheets_def)

text \<open>
  C9, as the code has it. For a user id without a session, the accessors of the session
  store (\<open>is_logged_in\<close>, \<open>get_username\<close>, the getters and setters of the three dialogue
  states, of the two scratch dictionaries and of the field being edited, and
  \<open>end_session\<close>) return the empty default or leave the state as it is, and \<open>login_user\<close>
  returns \<open>False\<close> without touching the sessions when the username is not found. But
  \<open>login_user\<close> with a username that is found and \<open>register_user\<close> index
  \<open>self.active_users[user_id]\<close> without a test and raise \<open>KeyError\<close>.
\<close>

theorem unknown_user_accessors:
  "active_users b uid = None \<Longrightarrow>
     is_logged_in uid b = False \<and> get_username uid b = None \<and>
     get_registration_state uid b = None \<and> get_registration_data uid b = Map.empty \<and>
     get_withdraw_state uid b = None \<and> get_withdraw_data uid b = Map.empty \<and>
     get_update_profile_state uid b = None \<and> get_update_field uid b = None \<and>
     set_registration_state uid st b = b \<and> set_registration_data uid k v b = b \<and>
     set_withdraw_state uid st b = b \<and> set_withdraw_data uid k pv b = b \<and>
     set_update_profile_state uid st b = b \<and> set_update_field uid fld b = b \<and>
     end_session uid b = b \<and>
     fst (login_user uid u b) =
       (if found_truthy (fst (find_user_by_username (Some u) (sheets b)))
        then Inl KeyError else Inr False) \<and>
     active_users (snd (login_user uid u b)) = active_users b \<and>
     register_user uid b = (Inl KeyError, b)"
  by (simp add: session_defs login_user_def register_user_def case_prod_beta Let_def)

theorem unknown_user_accessors_witness:
  "active_users example_bot 2 = None \<and>
   is_logged_in 2 example_bot = False \<and> get_username 2 example_bot = None \<and>
   get_withdraw_data 2 example_bot = Map.empty \<and>
   set_withdraw_state 2 (Some ''awaiting_amount'') example_bot = example_bot \<and>
   end_session 2 example_bot = example_bot \<and>
   fst (login_user 2 ''bob'' example_bot) = Inr False"
proof -
  have h: "active_users example_bot 2 = None" by simp
  have nf: "\<not> found_truthy (fst (find_user_by_username (Some ''bob'') (sheets example_bot)))"
    by (simp add: find_user_ok found_truthy_def)
  from unknown_user_accessors[OF h, of "Some ''awaiting_amount''" _ _ _ _ "''bob''"] h nf
  show ?thesis by simp
qed

text \<open>
  C9 as stated fails: user 2 has no session in \<open>example_bot\<close>; the registration commit
  raises \<open>KeyError\<close>, and so does the login with the username of a registered user.
\<close>

theorem unknown_user_login_register_raise:
  "fst (register_user 2 example_bot) = Inl KeyError \<and>
   fst (login_user 2 ''alice'' example_bot) = Inl KeyError"
  by (simp add: register_user_def login_user_def case_prod_beta Let_def find_user_ok found_truthy_def)

section \<open>The row of a new user\<close>

text \<open>
  C10. The row that the registration commit builds has 8 cells, the last one the balance
  \<open>"0"\<close>. With the payment mode \<open>"UPI"\<close> the UPI ID cell holds the entered UPI ID and the
  bank account and IFSC cells are empty; with \<open>"Bank Account"\<close> the UPI ID cell is empty
  and the two other cells hold the entered account and code.
\<close>

theorem user_row_shape:
  "length (user_row d) = 8 \<and> user_row d ! 7 = ''0'' \<and> last (user_row d) = ''0'' \<and>
   user_row d ! 0 = dict_get d ''username'' [] \<and>
   user_row d ! 3 = dict_get d ''payment_mode'' [] \<and>
   (dict_get d ''payment_mode'' [] = ''UPI'' \<longrightarrow>
      user_row d ! 4 = dict_get d ''upi_id'' [] \<and> user_row d ! 5 = [] \<and> user_row d ! 6 = []) \<and>
   (dict_get d ''payment_mode'' [] = ''Bank Account'' \<longrightarrow>
      user_row d ! 4 = [] \<and> user_row d ! 5 = dict_get d ''bank_account'' [] \<and>
      user_row d ! 6 = dict_get d ''ifsc_code'' [])"
  by (simp add: user_row_def Let_def)

theorem user_row_shape_witness:
  "dict_get [''payment_mode'' \<mapsto> ''UPI'', ''upi_id'' \<mapsto> ''alice@upi''] ''payment_mode'' [] = ''UPI'' \<and>
   length (user_row [''payment_mode'' \<mapsto> ''UPI'', ''upi_id'' \<mapsto> ''alice@upi'']) = 8 \<and>
   user_row [''payment_mode'' \<mapsto> ''UPI'', ''upi_id'' \<mapsto> ''alice@upi''] ! 4 = ''alice@upi'' \<and>
   user_row [''payment_mode'' \<mapsto> ''UPI'', ''upi_id'' \<mapsto> ''alice@upi''] ! 5 = [] \<and>
   dict_get [''payment_mode'' \<mapsto> ''Bank Account'', ''bank_account'' \<mapsto> ''12345'',
             ''ifsc_code'' \<mapsto> ''HDFC0001''] ''payment_mode'' [] = ''Bank Account'' \<and>
   user_row [''payment_mode'' \<mapsto> ''Bank Account'', ''bank_account'' \<mapsto> ''12345'',
             ''ifsc_code'' \<mapsto> ''HDFC0001''] ! 4 = [] \<and>
   user_row [''payment_mode'' \<mapsto> ''Bank Account'', ''bank_account'' \<mapsto> ''12345'',
             ''ifsc_code'' \<mapsto> ''HDFC0001''] ! 5 = ''12345'' \<and>
   user_row [''payment_mode'' \<mapsto> ''Bank Account'', ''bank_account'' \<mapsto> ''12345'',
             ''ifsc_code'' \<mapsto> ''HDFC0001''] ! 6 = ''HDFC0001''"
  using user_row_shape[of "[''payment_mode'' \<mapsto> ''UPI'', ''upi_id'' \<mapsto> ''alice@upi'']"]
    user_row_shape[of "[''payment_mode'' \<mapsto> ''Bank Account'', ''bank_account'' \<mapsto> ''12345'',
             ''ifsc_code'' \<mapsto> ''HDFC0001'']"]
  by (simp add: dict_get_def)


section \<open>Evaluation on the examples\<close>

lemmas handler_defs = handle_message_def start_registration_def prompt_login_username_def
  logout_def check_balance_def start_withdrawal_def join_channel_def start_profile_update_def
  main_menu_def handle_registration_def process_login_def handle_withdrawal_def
  handle_profile_update_def process_withdrawal_request_def if_state_def str_truthy_def
  with_sheets_def

lemma run_simps:
  "run uid [] b = b"
  "run uid (t # ts) b = run uid ts (snd (handle_message uid t b))"
  by (simp_all add: run_def)

lemmas float_eval_defs = py_float_def float_from_string_def is_continuation_def code_point_def
  unicode_spaces_def unicode_zeros_def strip_def parse_inf_or_nan_def parse_decimal_def
  parse_sign_def parse_exponent_def is_digit_def is_space_def ord_def lower_char_def
  upper_letters_def lower_letters_def float_of_scaled10_def float_of_scaled2_def
  float_of_ratio_def ratio_ge_pow2_def round_half_even_def float_le_def float_gt_def
  float_zero_def scaled_mantissa_def Let_def

lemma replicate_unfold:
  "replicate n x = (if n = 0 then [] else x # replicate (n - 1) x)"
  by (cases n) simp_all

lemmas str_eval_defs = replicate_unfold format_digits_def strip_zeros_of_def float_digits_def shortest_from_def
  decimal_point_def digit_candidates_def format_repr_def float_of_scaled10_def
  float_of_ratio_def ratio_ge_pow2_def round_half_even_def Let_def

lemmas sheet_eval_defs = find_user_by_username_def get_all_users_def ensure_headers_def
  api_call_def header_row_def get_user_balance_def get_user_payment_info_def cell_at_def
  add_payment_request_def update_user_balance_def write_user_cell_def set_cell_def
  payment_details_def example_sheets_def USER_HEADERS_def PAYMENT_HEADERS_def

lemmas run_eval_defs = run_simps handler_defs session_defs alice_session_def new_session_def
  sheet_eval_defs case_prod_beta Let_def float_le_def float_gt_def float_zero_def
  scaled_mantissa_def stored_balance_def lower_def lower_char_def upper_letters_def
  lower_letters_def dict_get_def py_opt_def py_str_def truthy_def balance_minus_def

lemma py_float_examples:
  "py_float ''abc'' = None"
  "py_float ''-5'' = Some (Finite True 5629499534213120 (- 50))"
  "py_float ''100'' = Some (Finite False 7036874417766400 (- 46))"
  "py_float ''250'' = Some (Finite False 8796093022208000 (- 45))"
  "py_float ''30'' = Some (Finite False 8444249301319680 (- 48))"
  "py_float ''-1'' = Some (Finite True 4503599627370496 (- 52))"
  "py_float ''1'' = Some (Finite False 4503599627370496 (- 52))"
  "py_float ''10000000000000000'' = Some (Finite False 5000000000000000 1)"
  by (simp_all add: float_eval_defs)

section \<open>Updating the payment mode\<close>

text \<open>
  C2 does not hold on the code. \<open>handle_profile_update\<close> maps the menu label
  \<open>"Payment Mode"\<close> to the field name \<open>"payment_mode"\<close>, but the field map of
  \<open>update_user_profile\<close> knows the column under \<open>"preferred_payment_mode"\<close> only. For the
  registered and logged-in user of \<open>example_bot\<close> the messages \<open>"4. Update Profile"\<close>,
  \<open>"Payment Mode"\<close>, \<open>"UPI"\<close> end in the reply
  \<open>"Failed to update profile: Invalid field: payment_mode"\<close>, and no cell is written.
\<close>

theorem payment_mode_update_fails:
  "fst (handle_message 1 ''UPI'' (run 1 [''4. Update Profile'', ''Payment Mode''] example_bot)) =
     Reply ''Failed to update profile: Invalid field: payment_mode'' get_main_menu_keyboard \<and>
   users_rows (sheets (snd (handle_message 1 ''UPI''
     (run 1 [''4. Update Profile'', ''Payment Mode''] example_bot)))) = users_rows example_sheets"
  by (simp add: run_simps handler_defs session_defs alice_session_def new_session_def update_user_profile_def
      case_prod_beta Let_def find_user_ok field_mapping_def field_map_def str_opt_def)

section \<open>Registering a username that exists\<close>

text \<open>
  C6, for a spreadsheet that can be read. When no call of the spreadsheet fails and the
  entered username is in the Users table, the registration step in state
  \<open>awaiting_username\<close> replies that the username exists, appends no row and leaves the
  sessions as they are, so the registration state is still \<open>awaiting_username\<close>; and
  \<open>register_user\<close> of the helper refuses a row with that username without appending it.
\<close>

theorem existing_username_rejected:
  assumes "faults (sheets b) = []"
    and "username_exists text (sheets b)"
    and "get_registration_state uid b = Some ''awaiting_username''"
  shows "fst (handle_registration uid text ''awaiting_username'' b) =
           Reply ''This username already exists. Please choose another username:'' NoMarkup \<and>
         users_rows (sheets (snd (handle_registration uid text ''awaiting_username'' b))) =
           users_rows (sheets b) \<and>
         active_users (snd (handle_registration uid text ''awaiting_username'' b)) = active_users b \<and>
         get_registration_state uid (snd (handle_registration uid text ''awaiting_username'' b)) =
           Some ''awaiting_username'' \<and>
         fst (sheets_register_user (text # cells) (sheets b)) = (False, ''Username already exists'') \<and>
         users_rows (snd (sheets_register_user (text # cells) (sheets b))) = users_rows (sheets b)"
proof -
  have ex: "\<And>i. find_row (Some text) i (users_rows (sheets b)) \<noteq> None"
    using assms(2) find_row_exists[of "text" "users_rows (sheets b)"]
    by (auto simp: username_exists_def)
  have found: "found_truthy (fst (find_user_by_username (Some text) (sheets b)))"
    using assms(1) ex by (simp add: find_user_ok found_truthy_find_row)
  have h: "handle_registration uid text ''awaiting_username'' b =
      (Reply ''This username already exists. Please choose another username:'' NoMarkup,
       with_sheets b (snd (find_user_by_username (Some text) (sheets b))))"
    using found by (simp add: handle_registration_def case_prod_beta Let_def)
  let ?w1 = "snd (ensure_headers UsersTable USER_HEADERS (sheets b))"
  have f1: "faults ?w1 = []" using assms(1) by (rule ensure_headers_faults)
  have found1: "found_truthy (fst (find_user_by_username (Some text) ?w1))"
    using f1 ex by (simp add: find_user_ok found_truthy_find_row)
  have r: "sheets_register_user (text # cells) (sheets b) =
      ((False, ''Username already exists''), snd (find_user_by_username (Some text) ?w1))"
    using found1 by (simp add: sheets_register_user_def case_prod_beta Let_def)
  show ?thesis
    using assms(3) by (simp add: h r with_sheets_def get_registration_state_def)
qed

theorem existing_username_rejected_witness:
  "faults (sheets (run 1 [''Signup''] example_bot)) = [] \<and>
   username_exists ''alice'' (sheets (run 1 [''Signup''] example_bot)) \<and>
   get_registration_state 1 (run 1 [''Signup''] example_bot) = Some ''awaiting_username'' \<and>
   fst (handle_registration 1 ''alice'' ''awaiting_username'' (run 1 [''Signup''] example_bot)) =
     Reply ''This username already exists. Please choose another username:'' NoMarkup \<and>
   users_rows (sheets (snd (handle_registration 1 ''alice'' ''awaiting_username''
     (run 1 [''Signup''] example_bot)))) =
     [[''alice'', ''Alice'', ''Lee'', ''UPI'', ''alice@upi'', [], [], ''100'']] \<and>
   get_registration_state 1 (snd (handle_registration 1 ''alice'' ''awaiting_username''
     (run 1 [''Signup''] example_bot))) = Some ''awaiting_username''"
proof -
  have b: "run 1 [''Signup''] example_bot =
      set_registration_state 1 (Some ''awaiting_username'') example_bot"
    by (simp add: run_simps handle_message_def start_registration_def)
  have h1: "faults (sheets (run 1 [''Signup''] example_bot)) = []"
    by (simp add: b session_defs)
  have h2: "username_exists ''alice'' (sheets (run 1 [''Signup''] example_bot))"
    by (simp add: b session_defs username_exists_def)
  have h3: "get_registration_state 1 (run 1 [''Signup''] example_bot) = Some ''awaiting_username''"
    by (simp add: b session_defs)
  have rows: "users_rows (sheets (run 1 [''Signup''] example_bot)) =
      [[''alice'', ''Alice'', ''Lee'', ''UPI'', ''alice@upi'', [], [], ''100'']]"
    by (simp add: b session_defs)
  from existing_username_rejected[OF h1 h2 h3] h1 h2 h3 rows show ?thesis by simp
qed

text \<open>
  C6 as stated fails when the spreadsheet cannot be read. \<open>get_all_users\<close> catches the
  exception of the read and returns \<open>[]\<close>, so the lookup finds no user: in
  \<open>read_fails_bot\<close> the Users table holds the row of \<open>alice\<close>, the read of the rows fails,
  and a new user who enters \<open>alice\<close> in state \<open>awaiting_username\<close> is asked for the first
  name and moved to \<open>awaiting_first_name\<close>. When the read fails once more at the commit, a
  second row with the username \<open>alice\<close> is appended.
\<close>

theorem existing_username_accepted:
  "username_exists ''alice'' (sheets (run 2 [''Signup''] read_fails_bot)) \<and>
   get_registration_state 2 (run 2 [''Signup''] read_fails_bot) = Some ''awaiting_username'' \<and>
   fst (handle_registration 2 ''alice'' ''awaiting_username'' (run 2 [''Signup''] read_fails_bot)) =
     Reply ''Please enter your first name:'' NoMarkup \<and>
   get_registration_state 2 (snd (handle_registration 2 ''alice'' ''awaiting_username''
     (run 2 [''Signup''] read_fails_bot))) = Some ''awaiting_first_name'' \<and>
   get_registration_state 2 (run 2 [''Signup'', ''alice''] read_fails_bot) =
     Some ''awaiting_first_name'' \<and>
   users_rows (sheets (run 2 [''Signup'', ''alice'', ''Mallory'', ''Roe'', ''UPI'', ''mallory@upi'',
     ''Yes''] read_fails_bot)) =
     [[''alice'', ''Alice'', ''Lee'', ''UPI'', ''alice@upi'', [], [], ''100''],
      [''alice'', ''Mallory'', ''Roe'', ''UPI'', ''mallory@upi'', [], [], ''0'']]"
proof -
  have e: "username_exists ''alice'' (sheets (run 2 [''Signup''] read_fails_bot))"
    by (simp add: run_eval_defs read_fails_bot_def username_exists_def)
  have s0: "get_registration_state 2 (run 2 [''Signup''] read_fails_bot) = Some ''awaiting_username''"
    by (simp add: run_eval_defs read_fails_bot_def)
  have h: "fst (handle_registration 2 ''alice'' ''awaiting_username'' (run 2 [''Signup''] read_fails_bot)) =
      Reply ''Please enter your first name:'' NoMarkup"
      "get_registration_state 2 (snd (handle_registration 2 ''alice'' ''awaiting_username''
        (run 2 [''Signup''] read_fails_bot))) = Some ''awaiting_first_name''"
    by (simp_all add: run_eval_defs read_fails_bot_def found_truthy_def)
  have s1: "get_registration_state 2 (run 2 [''Signup'', ''alice''] read_fails_bot) =
      Some ''awaiting_first_name''"
    by (simp add: run_eval_defs read_fails_bot_def found_truthy_def)
  have s2: "users_rows (sheets (run 2 [''Signup'', ''alice'', ''Mallory'', ''Roe'', ''UPI'',
      ''mallory@upi'', ''Yes''] read_fails_bot)) =
      [[''alice'', ''Alice'', ''Lee'', ''UPI'', ''alice@upi'', [], [], ''100''],
       [''alice'', ''Mallory'', ''Roe'', ''UPI'', ''mallory@upi'', [], [], ''0'']]"
    by (simp add: run_eval_defs read_fails_bot_def found_truthy_def register_user_def
        sheets_register_user_def user_row_def)
  show ?thesis
    using e s0 h s1 s2 by blast
qed

section \<open>The amount of a withdrawal\<close>




section \<open>The precedence of the menu\<close>

text \<open>
  C8. For a logged-in user whose withdrawal state is \<open>awaiting_amount\<close>, the message
  \<open>"Check Balance"\<close> (or \<open>"1. Check Balance"\<close>) is handled by \<open>check_balance\<close>, not by the
  withdrawal handler, and the withdrawal state is \<open>awaiting_amount\<close> afterwards.
\<close>

theorem check_balance_preempts_withdrawal:
  assumes "is_logged_in uid b"
    and "get_withdraw_state uid b = Some ''awaiting_amount''"
    and "text = ''Check Balance'' \<or> text = ''1. Check Balance''"
  shows "handle_message uid text b = check_balance uid b \<and>
         get_withdraw_state uid (snd (handle_message uid text b)) = Some ''awaiting_amount''"
proof -
  from assms(1) obtain s where s: "active_users b uid = Some s"
    by (auto simp: is_logged_in_def split: option.splits)
  have route: "handle_message uid text b = check_balance uid b"
    using assms(1,3) s by (auto simp: handle_message_def Let_def)
  have keep: "get_withdraw_state uid (snd (check_balance uid b)) = get_withdraw_state uid b"
    by (simp add: check_balance_def get_withdraw_state_def with_sheets_def case_prod_beta Let_def)
  show ?thesis using route keep assms(2) by simp
qed

theorem check_balance_preempts_withdrawal_witness:
  "is_logged_in 1 (run 1 [''2. Withdraw Funds''] example_bot) \<and>
   get_withdraw_state 1 (run 1 [''2. Withdraw Funds''] example_bot) = Some ''awaiting_amount'' \<and>
   handle_message 1 ''Check Balance'' (run 1 [''2. Withdraw Funds''] example_bot) =
     check_balance 1 (run 1 [''2. Withdraw Funds''] example_bot) \<and>
   fst (check_balance 1 (run 1 [''2. Withdraw Funds''] example_bot)) =
     Reply (''Your current balance is: '' @ rupee @ ''100'') get_main_menu_keyboard \<and>
   get_withdraw_state 1 (snd (handle_message 1 ''Check Balance''
     (run 1 [''2. Withdraw Funds''] example_bot))) = Some ''awaiting_amount''"
proof -
  have b: "run 1 [''2. Withdraw Funds''] example_bot =
      set_withdraw_state 1 (Some ''awaiting_amount'') example_bot"
    by (simp add: run_simps handle_message_def start_withdrawal_def is_logged_in_def get_username_def
        alice_session_def str_truthy_def)
  have h1: "is_logged_in 1 (run 1 [''2. Withdraw Funds''] example_bot)"
    by (simp add: b session_defs alice_session_def)
  have h2: "get_withdraw_state 1 (run 1 [''2. Withdraw Funds''] example_bot) = Some ''awaiting_amount''"
    by (simp add: b session_defs)
  have bal: "fst (check_balance 1 (run 1 [''2. Withdraw Funds''] example_bot)) =
      Reply (''Your current balance is: '' @ rupee @ ''100'') get_main_menu_keyboard"
    by (simp add: b check_balance_def session_defs alice_session_def str_truthy_def
        get_user_balance_def find_user_ok case_prod_beta Let_def)
  note t = check_balance_preempts_withdrawal[OF h1 h2 disjI1[OF refl]]
  show ?thesis using t h1 h2 bal by blast
qed


section \<open>Registration\<close>

lemma ensure_headers_ok:
  "faults w = [] \<Longrightarrow> fst (ensure_headers t hs w) = True"
  by (auto simp: ensure_headers_def api_call_def Let_def split: list.splits)

lemma sheets_register_user_new:
  assumes "faults w = []" and "\<not> username_exists u w"
  shows "fst (sheets_register_user (u # cells) w) = (True, ''User registered successfully'')"
    and "users_rows (snd (sheets_register_user (u # cells) w)) = users_rows w @ [u # cells]"
    and "payments_rows (snd (sheets_register_user (u # cells) w)) = payments_rows w"
    and "faults (snd (sheets_register_user (u # cells) w)) = []"
proof -
  let ?w1 = "snd (ensure_headers UsersTable USER_HEADERS w)"
  let ?w2 = "snd (find_user_by_username (Some u) ?w1)"
  have f1: "faults ?w1 = []" using assms(1) by (rule ensure_headers_faults)
  have none: "fst (find_user_by_username (Some u) ?w1) = None"
    using assms(2) f1 by (simp add: find_user_ok find_row_None username_exists_def)
  have f2: "faults ?w2 = []" using f1 by (rule find_user_ok(2))
  have r: "sheets_register_user (u # cells) w =
      ((True, ''User registered successfully''), ?w2\<lparr>users_rows := users_rows ?w2 @ [u # cells]\<rparr>)"
    by (simp add: sheets_register_user_def case_prod_beta Let_def none found_truthy_def
        api_call_ok[OF f2])
  show "fst (sheets_register_user (u # cells) w) = (True, ''User registered successfully'')"
    and "users_rows (snd (sheets_register_user (u # cells) w)) = users_rows w @ [u # cells]"
    and "payments_rows (snd (sheets_register_user (u # cells) w)) = payments_rows w"
    and "faults (snd (sheets_register_user (u # cells) w)) = []"
    using f2 by (simp_all add: r)
qed

lemma route_registration:
  assumes "active_users b uid = Some s" and "registration_state s = Some st" and "st \<noteq> []"
    and "\<not> menu_keyword t"
  shows "handle_message uid t b = handle_registration uid t st b"
  using assms
  by (simp add: handle_message_def menu_keyword_def get_registration_state_def if_state_def
      str_truthy_def Let_def)

lemma yes_not_keyword: "lower t = ''yes'' \<Longrightarrow> \<not> menu_keyword t"
  by (auto simp: menu_keyword_def lower_def lower_char_def upper_letters_def lower_letters_def)

lemma run_append: "run uid (xs @ ys) b = run uid ys (run uid xs b)"
  by (simp add: run_def)

lemma signup_starts_registration:
  assumes "go = ''Signup'' \<or> go = ''1. Signup''"
  shows "\<exists>s. active_users (run uid [go] b) uid = Some s \<and>
           registration_state s = Some ''awaiting_username''"
    and "sheets (run uid [go] b) = sheets b"
proof -
  define b0 where "b0 = (if active_users b uid = None then start_session uid b else b)"
  have r: "run uid [go] b = set_registration_state uid (Some ''awaiting_username'') b0"
    using assms
    by (elim disjE) (simp_all add: run_simps handle_message_def start_registration_def b0_def)
  obtain s0 where s0: "active_users b0 uid = Some s0"
    by (cases "active_users b uid") (auto simp: b0_def start_session_def)
  have sh: "sheets b0 = sheets b"
    by (cases "active_users b uid") (auto simp: b0_def start_session_def)
  show "\<exists>s. active_users (run uid [go] b) uid = Some s \<and>
           registration_state s = Some ''awaiting_username''"
    using s0 by (simp add: r set_registration_state_def set_in_session_def)
  show "sheets (run uid [go] b) = sheets b"
    using s0 sh by (simp add: r set_registration_state_def set_in_session_def)
qed

text \<open>The answers to the first three prompts, from the state \<open>awaiting_username\<close>.\<close>

lemma registration_prefix:
  assumes s: "active_users b uid = Some s" "registration_state s = Some ''awaiting_username''"
    and nf: "faults (sheets b) = []"
    and new: "\<not> username_exists u (sheets b)"
    and kw: "\<not> menu_keyword u" "\<not> menu_keyword f" "\<not> menu_keyword l"
  shows "\<exists>s3. active_users (run uid [u, f, l] b) uid = Some s3 \<and>
           registration_state s3 = Some ''awaiting_payment_mode'' \<and>
           registration_data s3 ''username'' = Some u \<and>
           registration_data s3 ''first_name'' = Some f \<and>
           registration_data s3 ''last_name'' = Some l"
    and "faults (sheets (run uid [u, f, l] b)) = []"
    and "users_rows (sheets (run uid [u, f, l] b)) = users_rows (sheets b)"
proof -
  have none: "fst (find_user_by_username (Some u) (sheets b)) = None"
    using nf new by (simp add: find_user_ok find_row_None username_exists_def)
  let ?w1 = "snd (find_user_by_username (Some u) (sheets b))"
  have w1: "faults ?w1 = []" "users_rows ?w1 = users_rows (sheets b)"
    using nf by (simp_all add: find_user_ok)
  define s1 where "s1 = s\<lparr>registration_data := (registration_data s)(''username'' \<mapsto> u),
     registration_state := Some ''awaiting_first_name''\<rparr>"
  define b1 where "b1 = b\<lparr>sheets := ?w1, active_users := (active_users b)(uid \<mapsto> s1)\<rparr>"
  have step1: "snd (handle_message uid u b) = b1"
    using s kw(1) none
    by (simp add: route_registration[OF s(1,2)] handle_registration_def case_prod_beta Let_def
        found_truthy_def with_sheets_def session_defs b1_def s1_def)
  define s2 where "s2 = s1\<lparr>registration_data := (registration_data s1)(''first_name'' \<mapsto> f),
     registration_state := Some ''awaiting_last_name''\<rparr>"
  define b2 where "b2 = b1\<lparr>active_users := (active_users b1)(uid \<mapsto> s2)\<rparr>"
  have a1: "active_users b1 uid = Some s1" "registration_state s1 = Some ''awaiting_first_name''"
    by (simp_all add: b1_def s1_def)
  have step2: "snd (handle_message uid f b1) = b2"
    using kw(2) a1
    by (simp add: route_registration[OF a1] handle_registration_def session_defs b2_def s2_def)
  define s3 where "s3 = s2\<lparr>registration_data := (registration_data s2)(''last_name'' \<mapsto> l),
     registration_state := Some ''awaiting_payment_mode''\<rparr>"
  define b3 where "b3 = b2\<lparr>active_users := (active_users b2)(uid \<mapsto> s3)\<rparr>"
  have a2: "active_users b2 uid = Some s2" "registration_state s2 = Some ''awaiting_last_name''"
    by (simp_all add: b2_def s2_def)
  have step3: "snd (handle_message uid l b2) = b3"
    using kw(3) a2
    by (simp add: route_registration[OF a2] handle_registration_def session_defs b3_def s3_def)
  have r: "run uid [u, f, l] b = b3"
    by (simp add: run_simps step1 step2 step3)
  have "active_users b3 uid = Some s3 \<and>
      registration_state s3 = Some ''awaiting_payment_mode'' \<and>
      registration_data s3 ''username'' = Some u \<and>
      registration_data s3 ''first_name'' = Some f \<and>
      registration_data s3 ''last_name'' = Some l"
    by (simp add: b3_def s3_def s2_def s1_def)
  then show "\<exists>s3. active_users (run uid [u, f, l] b) uid = Some s3 \<and>
           registration_state s3 = Some ''awaiting_payment_mode'' \<and>
           registration_data s3 ''username'' = Some u \<and>
           registration_data s3 ''first_name'' = Some f \<and>
           registration_data s3 ''last_name'' = Some l"
    unfolding r by blast
  show "faults (sheets (run uid [u, f, l] b)) = []"
    and "users_rows (sheets (run uid [u, f, l] b)) = users_rows (sheets b)"
    using w1 by (simp_all add: r b3_def b2_def b1_def)
qed

text \<open>The commit: \<open>"yes"\<close> in state \<open>awaiting_confirmation\<close>, for a username that is new.\<close>

lemma registration_confirmed:
  assumes s: "active_users b uid = Some s" "registration_state s = Some ''awaiting_confirmation''"
    and nf: "faults (sheets b) = []"
    and u: "dict_get (registration_data s) ''username'' [] = u"
    and new: "\<not> username_exists u (sheets b)"
    and yes: "lower yes = ''yes''"
    and row: "user_row (registration_data s) = u # cells"
  shows "users_rows (sheets (run uid [yes] b)) = users_rows (sheets b) @ [u # cells] \<and>
         is_logged_in uid (run uid [yes] b) \<and>
         get_username uid (run uid [yes] b) = Some u \<and>
         get_registration_state uid (run uid [yes] b) = None"
proof -
  note reg = sheets_register_user_new[OF nf new, of cells]
  have route: "handle_message uid yes b = handle_registration uid yes ''awaiting_confirmation'' b"
    using yes_not_keyword[OF yes] by (simp add: route_registration[OF s])
  show ?thesis
    using yes s reg
    by (simp add: run_simps route handle_registration_def register_user_def case_prod_beta
        Let_def row u session_defs)
qed

lemma registration_upi_tail:
  assumes s: "active_users b uid = Some s" "registration_state s = Some ''awaiting_payment_mode''"
    and d: "registration_data s ''username'' = Some u" "registration_data s ''first_name'' = Some f"
      "registration_data s ''last_name'' = Some l"
    and nf: "faults (sheets b) = []"
    and new: "\<not> username_exists u (sheets b)"
    and kw: "\<not> menu_keyword x"
    and yes: "lower yes = ''yes''"
  shows "users_rows (sheets (run uid [''UPI'', x, yes] b)) =
           users_rows (sheets b) @ [[u, f, l, ''UPI'', x, [], [], ''0'']] \<and>
         is_logged_in uid (run uid [''UPI'', x, yes] b) \<and>
         get_username uid (run uid [''UPI'', x, yes] b) = Some u \<and>
         get_registration_state uid (run uid [''UPI'', x, yes] b) = None"
proof -
  define s4 where "s4 = s\<lparr>registration_data := (registration_data s)(''payment_mode'' \<mapsto> ''UPI''),
     registration_state := Some ''awaiting_upi_id''\<rparr>"
  define b4 where "b4 = b\<lparr>active_users := (active_users b)(uid \<mapsto> s4)\<rparr>"
  have step4: "snd (handle_message uid ''UPI'' b) = b4"
    using s
    by (simp add: route_registration[OF s] menu_keyword_def handle_registration_def session_defs
        b4_def s4_def)
  define s5 where "s5 = s4\<lparr>registration_data := (registration_data s4)(''upi_id'' \<mapsto> x),
     registration_state := Some ''awaiting_confirmation''\<rparr>"
  define b5 where "b5 = b4\<lparr>active_users := (active_users b4)(uid \<mapsto> s5)\<rparr>"
  have a4: "active_users b4 uid = Some s4" "registration_state s4 = Some ''awaiting_upi_id''"
    by (simp_all add: b4_def s4_def)
  have step5: "snd (handle_message uid x b4) = b5"
    using kw a4
    by (simp add: route_registration[OF a4] handle_registration_def session_defs Let_def
        b5_def s5_def)
  have a5: "active_users b5 uid = Some s5" "registration_state s5 = Some ''awaiting_confirmation''"
    by (simp_all add: b5_def s5_def)
  have row: "user_row (registration_data s5) = u # [f, l, ''UPI'', x, [], [], ''0'']"
    using d by (simp add: user_row_def dict_get_def Let_def s5_def s4_def)
  have un: "dict_get (registration_data s5) ''username'' [] = u"
    using d by (simp add: dict_get_def s5_def s4_def)
  have sh5: "sheets b5 = sheets b"
    by (simp add: b5_def b4_def)
  have r: "run uid [''UPI'', x, yes] b = run uid [yes] b5"
    by (simp add: run_simps step4 step5)
  show ?thesis
    using registration_confirmed[OF a5 _ un _ yes row] nf new by (simp add: r sh5)
qed

lemma registration_bank_tail:
  assumes s: "active_users b uid = Some s" "registration_state s = Some ''awaiting_payment_mode''"
    and d: "registration_data s ''username'' = Some u" "registration_data s ''first_name'' = Some f"
      "registration_data s ''last_name'' = Some l"
    and nf: "faults (sheets b) = []"
    and new: "\<not> username_exists u (sheets b)"
    and kw: "\<not> menu_keyword x" "\<not> menu_keyword y"
    and yes: "lower yes = ''yes''"
  shows "users_rows (sheets (run uid [''Bank Account'', x, y, yes] b)) =
           users_rows (sheets b) @ [[u, f, l, ''Bank Account'', [], x, y, ''0'']] \<and>
         is_logged_in uid (run uid [''Bank Account'', x, y, yes] b) \<and>
         get_username uid (run uid [''Bank Account'', x, y, yes] b) = Some u \<and>
         get_registration_state uid (run uid [''Bank Account'', x, y, yes] b) = None"
proof -
  define s4 where "s4 = s\<lparr>registration_data :=
       (registration_data s)(''payment_mode'' \<mapsto> ''Bank Account''),
     registration_state := Some ''awaiting_bank_account''\<rparr>"
  define b4 where "b4 = b\<lparr>active_users := (active_users b)(uid \<mapsto> s4)\<rparr>"
  have step4: "snd (handle_message uid ''Bank Account'' b) = b4"
    using s
    by (simp add: route_registration[OF s] menu_keyword_def handle_registration_def session_defs
        b4_def s4_def)
  define s5 where "s5 = s4\<lparr>registration_data := (registration_data s4)(''bank_account'' \<mapsto> x),
     registration_state := Some ''awaiting_ifsc_code''\<rparr>"
  define b5 where "b5 = b4\<lparr>active_users := (active_users b4)(uid \<mapsto> s5)\<rparr>"
  have a4: "active_users b4 uid = Some s4" "registration_state s4 = Some ''awaiting_bank_account''"
    by (simp_all add: b4_def s4_def)
  have step5: "snd (handle_message uid x b4) = b5"
    using kw(1) a4
    by (simp add: route_registration[OF a4] handle_registration_def session_defs b5_def s5_def)
  define s6 where "s6 = s5\<lparr>registration_data := (registration_data s5)(''ifsc_code'' \<mapsto> y),
     registration_state := Some ''awaiting_confirmation''\<rparr>"
  define b6 where "b6 = b5\<lparr>active_users := (active_users b5)(uid \<mapsto> s6)\<rparr>"
  have a5: "active_users b5 uid = Some s5" "registration_state s5 = Some ''awaiting_ifsc_code''"
    by (simp_all add: b5_def s5_def)
  have step6: "snd (handle_message uid y b5) = b6"
    using kw(2) a5
    by (simp add: route_registration[OF a5] handle_registration_def session_defs Let_def
        b6_def s6_def)
  have a6: "active_users b6 uid = Some s6" "registration_state s6 = Some ''awaiting_confirmation''"
    by (simp_all add: b6_def s6_def)
  have row: "user_row (registration_data s6) = u # [f, l, ''Bank Account'', [], x, y, ''0'']"
    using d by (simp add: user_row_def dict_get_def Let_def s6_def s5_def s4_def)
  have un: "dict_get (registration_data s6) ''username'' [] = u"
    using d by (simp add: dict_get_def s6_def s5_def s4_def)
  have sh6: "sheets b6 = sheets b"
    by (simp add: b6_def b5_def b4_def)
  have r: "run uid [''Bank Account'', x, y, yes] b = run uid [yes] b6"
    by (simp add: run_simps step4 step5 step6)
  show ?thesis
    using registration_confirmed[OF a6 _ un _ yes row] nf new by (simp add: r sh6)
qed

text \<open>
  C3. Take a user in any state of the bot in which no call of the spreadsheet fails, and a
  username \<open>u\<close> that no row of the Users table has. Let the user send \<open>"Signup"\<close> (or
  \<open>"1. Signup"\<close>), then \<open>u\<close>, a first name, a last name, the payment mode (\<open>"UPI"\<close> followed by
  a UPI ID, or \<open>"Bank Account"\<close> followed by an account number and an IFSC code) and at the
  end a text that is \<open>"yes"\<close> in lower case, none of the answers being a menu label that
  \<open>handle_message\<close> takes first. Then the Users table has grown by exactly the row of
  these answers with the balance \<open>"0"\<close>, the session is logged in as \<open>u\<close>, and the
  registration state is \<open>None\<close>.
\<close>

theorem registration_commit:
  assumes "faults (sheets b) = []"
    and "\<not> username_exists u (sheets b)"
    and "go = ''Signup'' \<or> go = ''1. Signup''"
    and "mode = ''UPI'' \<or> mode = ''Bank Account''"
    and "ids = (if mode = ''UPI'' then [x] else [x, y])"
    and "list_all (\<lambda>t. \<not> menu_keyword t) ([u, f, l] @ ids)"
    and "lower yes = ''yes''"
    and "inputs = [go, u, f, l, mode] @ ids @ [yes]"
    and "row = [u, f, l, mode] @ (if mode = ''UPI'' then [x, [], []] else [[], x, y]) @ [''0'']"
  shows "users_rows (sheets (run uid inputs b)) = users_rows (sheets b) @ [row] \<and>
         is_logged_in uid (run uid inputs b) \<and>
         get_username uid (run uid inputs b) = Some u \<and>
         get_registration_state uid (run uid inputs b) = None"
proof -
  from signup_starts_registration[OF assms(3), of uid b]
  obtain s where s: "active_users (run uid [go] b) uid = Some s"
      "registration_state s = Some ''awaiting_username''"
    and sh: "sheets (run uid [go] b) = sheets b"
    by blast
  have kw: "\<not> menu_keyword u" "\<not> menu_keyword f" "\<not> menu_keyword l" "\<not> menu_keyword x"
    using assms(5,6) by (auto split: if_splits)
  let ?b1 = "run uid [go] b"
  let ?b3 = "run uid [u, f, l] ?b1"
  from registration_prefix[OF s _ _ kw(1,2,3)] assms(1,2) sh
  obtain s3 where s3: "active_users ?b3 uid = Some s3"
      "registration_state s3 = Some ''awaiting_payment_mode''"
      "registration_data s3 ''username'' = Some u"
      "registration_data s3 ''first_name'' = Some f"
      "registration_data s3 ''last_name'' = Some l"
    and w3: "faults (sheets ?b3) = []" "users_rows (sheets ?b3) = users_rows (sheets b)"
    by auto
  have new3: "\<not> username_exists u (sheets ?b3)"
    using assms(2) w3(2) by (simp add: username_exists_def)
  from assms(4) show ?thesis
  proof
    assume m: "mode = ''UPI''"
    have i: "inputs = [go] @ [u, f, l] @ [''UPI'', x, yes]"
      using assms(5,8) m by simp
    show ?thesis
      using registration_upi_tail[OF s3 w3(1) new3 kw(4) assms(7)] w3(2) assms(9) m
      unfolding i run_append by simp
  next
    assume m: "mode = ''Bank Account''"
    have ky: "\<not> menu_keyword y" using assms(5,6) m by simp
    have i: "inputs = [go] @ [u, f, l] @ [''Bank Account'', x, y, yes]"
      using assms(5,8) m by simp
    show ?thesis
      using registration_bank_tail[OF s3 w3(1) new3 kw(4) ky assms(7)] w3(2) assms(9) m
      unfolding i run_append by simp
  qed
qed

theorem registration_commit_witness:
  "faults (sheets example_bot) = [] \<and> \<not> username_exists ''carol'' (sheets example_bot) \<and>
   list_all (\<lambda>t. \<not> menu_keyword t) [''carol'', ''Carol'', ''Ng'', ''carol@upi''] \<and>
   lower ''Yes'' = ''yes'' \<and>
   users_rows (sheets (run 2 [''Signup'', ''carol'', ''Carol'', ''Ng'', ''UPI'', ''carol@upi'', ''Yes'']
     example_bot)) =
     [[''alice'', ''Alice'', ''Lee'', ''UPI'', ''alice@upi'', [], [], ''100''],
      [''carol'', ''Carol'', ''Ng'', ''UPI'', ''carol@upi'', [], [], ''0'']] \<and>
   is_logged_in 2 (run 2 [''Signup'', ''carol'', ''Carol'', ''Ng'', ''UPI'', ''carol@upi'', ''Yes'']
     example_bot) \<and>
   get_username 2 (run 2 [''Signup'', ''carol'', ''Carol'', ''Ng'', ''UPI'', ''carol@upi'', ''Yes'']
     example_bot) = Some ''carol'' \<and>
   get_registration_state 2
     (run 2 [''Signup'', ''carol'', ''Carol'', ''Ng'', ''UPI'', ''carol@upi'', ''Yes''] example_bot) = None"
proof -
  have h1: "faults (sheets example_bot) = []" by simp
  have h2: "\<not> username_exists ''carol'' (sheets example_bot)"
    by (simp add: username_exists_def)
  have h3: "list_all (\<lambda>t. \<not> menu_keyword t)
      ([''carol'', ''Carol'', ''Ng''] @ (if ''UPI'' = ''UPI'' then [''carol@upi''] else [''carol@upi'', []]))"
    by (simp add: menu_keyword_def)
  have h4: "lower ''Yes'' = ''yes''"
    by (simp add: lower_def lower_char_def upper_letters_def lower_letters_def)
  from registration_commit[OF h1 h2 disjI1[OF refl] disjI1[OF refl] refl h3 h4 refl refl, of 2]
    h1 h2 h3 h4
  show ?thesis by simp
qed

text \<open>
  C3 as stated fails when the append to the Users table fails. \<open>register_user\<close> of the
  helper catches the exception and returns \<open>False\<close> with its text. In \<open>append_fails_bot\<close>
  the username \<open>carol\<close> is new and the dialogue reaches the confirmation; after \<open>"Yes"\<close>
  the bot replies that the registration failed, the Users table is as it was, the user
  is not logged in, and the registration state is still \<open>awaiting_confirmation\<close>.
\<close>

theorem registration_commit_append_fails:
  "\<not> username_exists ''carol'' (sheets append_fails_bot) \<and>
   get_registration_state 2 (run 2 [''Signup'', ''carol'', ''Carol'', ''Ng'', ''UPI'', ''carol@upi'']
     append_fails_bot) = Some ''awaiting_confirmation'' \<and>
   lower ''Yes'' = ''yes'' \<and>
   fst (handle_message 2 ''Yes'' (run 2 [''Signup'', ''carol'', ''Carol'', ''Ng'', ''UPI'',
     ''carol@upi''] append_fails_bot)) =
     Reply ''Registration failed: Error: Quota exceeded. Please try again.''
       get_welcome_keyboard \<and>
   users_rows (sheets (run 2 [''Signup'', ''carol'', ''Carol'', ''Ng'', ''UPI'', ''carol@upi'', ''Yes'']
     append_fails_bot)) = [[''alice'', ''Alice'', ''Lee'', ''UPI'', ''alice@upi'', [], [], ''100'']] \<and>
   \<not> is_logged_in 2 (run 2 [''Signup'', ''carol'', ''Carol'', ''Ng'', ''UPI'', ''carol@upi'', ''Yes'']
     append_fails_bot) \<and>
   get_registration_state 2 (run 2 [''Signup'', ''carol'', ''Carol'', ''Ng'', ''UPI'', ''carol@upi'',
     ''Yes''] append_fails_bot) = Some ''awaiting_confirmation''"
proof -
  have e: "\<not> username_exists ''carol'' (sheets append_fails_bot)"
    by (simp add: append_fails_bot_def example_sheets_def username_exists_def)
  have yes: "lower ''Yes'' = ''yes''"
    by (simp add: lower_def lower_char_def upper_letters_def lower_letters_def)
  have s0: "get_registration_state 2 (run 2 [''Signup'', ''carol'', ''Carol'', ''Ng'', ''UPI'',
      ''carol@upi''] append_fails_bot) = Some ''awaiting_confirmation''"
    by (simp add: run_eval_defs append_fails_bot_def found_truthy_def)
  have h: "fst (handle_message 2 ''Yes'' (run 2 [''Signup'', ''carol'', ''Carol'', ''Ng'', ''UPI'',
      ''carol@upi''] append_fails_bot)) =
      Reply ''Registration failed: Error: Quota exceeded. Please try again.''
        get_welcome_keyboard"
    by (simp add: run_eval_defs append_fails_bot_def found_truthy_def register_user_def
        sheets_register_user_def user_row_def)
  have s1: "users_rows (sheets (run 2 [''Signup'', ''carol'', ''Carol'', ''Ng'', ''UPI'', ''carol@upi'',
      ''Yes''] append_fails_bot)) = [[''alice'', ''Alice'', ''Lee'', ''UPI'', ''alice@upi'', [], [], ''100'']]"
      "\<not> is_logged_in 2 (run 2 [''Signup'', ''carol'', ''Carol'', ''Ng'', ''UPI'', ''carol@upi'', ''Yes'']
        append_fails_bot)"
      "get_registration_state 2 (run 2 [''Signup'', ''carol'', ''Carol'', ''Ng'', ''UPI'', ''carol@upi'',
        ''Yes''] append_fails_bot) = Some ''awaiting_confirmation''"
    by (simp_all add: run_eval_defs append_fails_bot_def found_truthy_def register_user_def
        sheets_register_user_def user_row_def)
  show ?thesis
    using e yes s0 h s1 by blast
qed


section \<open>A withdrawal above the balance\<close>

lemma get_user_balance_rows [simp]:
  "users_rows (snd (get_user_balance u w)) = users_rows w"
  "payments_rows (snd (get_user_balance u w)) = payments_rows w"
  by (simp_all add: get_user_balance_def case_prod_beta Let_def split: option.splits)

lemma get_user_balance_ok:
  "faults w = [] \<Longrightarrow> fst (get_user_balance u w) = stored_balance u w"
  "faults w = [] \<Longrightarrow> faults (snd (get_user_balance u w)) = []"
  by (auto simp: get_user_balance_def stored_balance_def case_prod_beta Let_def find_user_ok
      split: option.splits dest: find_row_Some)

lemma session_setters_keep [simp]:
  "sheets (set_withdraw_data uid k v b) = sheets b"
  "sheets (set_withdraw_state uid st b) = sheets b"
  "get_username uid (set_withdraw_data uid k v b) = get_username uid b"
  "get_withdraw_state uid (set_withdraw_state uid None b) = None"
  by (auto simp: session_defs split: option.splits)

text \<open>
  C5, as the code has it. In state \<open>awaiting_amount\<close>, when no call of the spreadsheet
  fails, an amount that is positive and greater than the stored balance of the user
  ends the withdrawal: the reply reports the balance, the withdrawal state is \<open>None\<close>, and
  the rows of both tables are as before (no payment request, the same balance). The
  test \<open>amount <= 0\<close> comes first in the handler, so the amount has to be positive.
\<close>

theorem insufficient_balance_aborts:
  assumes "faults (sheets b) = []"
    and "py_float text = Some amount"
    and "\<not> float_le amount float_zero"
    and "py_float (stored_balance (get_username uid b) (sheets b)) = Some balance"
    and "float_gt amount balance"
  shows "fst (handle_withdrawal uid text ''awaiting_amount'' b) =
           Reply (''Insufficient balance. Your current balance is: '' @ rupee @ str_float balance)
             get_main_menu_keyboard \<and>
         get_withdraw_state uid (snd (handle_withdrawal uid text ''awaiting_amount'' b)) = None \<and>
         payments_rows (sheets (snd (handle_withdrawal uid text ''awaiting_amount'' b))) =
           payments_rows (sheets b) \<and>
         users_rows (sheets (snd (handle_withdrawal uid text ''awaiting_amount'' b))) =
           users_rows (sheets b) \<and>
         stored_balance (get_username uid b)
           (sheets (snd (handle_withdrawal uid text ''awaiting_amount'' b))) =
           stored_balance (get_username uid b) (sheets b)"
  using assms
  by (simp add: handle_withdrawal_def case_prod_beta Let_def with_sheets_def get_user_balance_ok
      stored_balance_def)

theorem insufficient_balance_aborts_witness:
  "faults (sheets (run 1 [''Withdraw Funds''] example_bot)) = [] \<and>
   py_float ''250'' = Some (Finite False 8796093022208000 (- 45)) \<and>
   \<not> float_le (Finite False 8796093022208000 (- 45)) float_zero \<and>
   py_float (stored_balance (get_username 1 (run 1 [''Withdraw Funds''] example_bot))
     (sheets (run 1 [''Withdraw Funds''] example_bot))) =
     Some (Finite False 7036874417766400 (- 46)) \<and>
   float_gt (Finite False 8796093022208000 (- 45)) (Finite False 7036874417766400 (- 46)) \<and>
   fst (handle_withdrawal 1 ''250'' ''awaiting_amount'' (run 1 [''Withdraw Funds''] example_bot)) =
     Reply (''Insufficient balance. Your current balance is: '' @ rupee @ ''100.0'')
       get_main_menu_keyboard \<and>
   get_withdraw_state 1 (snd (handle_withdrawal 1 ''250'' ''awaiting_amount''
     (run 1 [''Withdraw Funds''] example_bot))) = None \<and>
   payments_rows (sheets (snd (handle_withdrawal 1 ''250'' ''awaiting_amount''
     (run 1 [''Withdraw Funds''] example_bot)))) = []"
proof -
  have b: "run 1 [''Withdraw Funds''] example_bot =
      set_withdraw_state 1 (Some ''awaiting_amount'') example_bot"
    by (simp add: run_simps handle_message_def start_withdrawal_def is_logged_in_def
        get_username_def alice_session_def str_truthy_def)
  have u: "get_username 1 (run 1 [''Withdraw Funds''] example_bot) = Some ''alice''"
    by (simp add: b session_defs alice_session_def)
  have sh: "sheets (run 1 [''Withdraw Funds''] example_bot) = example_sheets"
    by (simp add: b)
  have h1: "faults (sheets (run 1 [''Withdraw Funds''] example_bot)) = []"
    by (simp add: sh)
  have h3: "\<not> float_le (Finite False 8796093022208000 (- 45)) float_zero"
    by (simp add: float_le_def float_zero_def scaled_mantissa_def)
  have h4: "py_float (stored_balance (get_username 1 (run 1 [''Withdraw Funds''] example_bot))
      (sheets (run 1 [''Withdraw Funds''] example_bot))) = Some (Finite False 7036874417766400 (- 46))"
    by (simp add: u sh stored_balance_def py_float_examples)
  have h5: "float_gt (Finite False 8796093022208000 (- 45)) (Finite False 7036874417766400 (- 46))"
    by (simp add: float_gt_def scaled_mantissa_def)
  have str: "str_float (Finite False 7036874417766400 (- 46)) = ''100.0''"
    by (simp add: str_eval_defs)
  from insufficient_balance_aborts[OF h1 py_float_examples(4) h3 h4 h5] h1 h3 h4 h5
  show ?thesis by (simp add: str sh py_float_examples del: str_float.simps)
qed

text \<open>
  C5 as stated fails for an amount that is not positive. In \<open>overdrawn_bot\<close> the stored
  balance of the user is \<open>-5\<close>. The amount \<open>-1\<close> is greater, but the handler asks for a
  positive amount and the withdrawal state is still \<open>awaiting_amount\<close>.
\<close>

theorem negative_amount_above_balance_stays:
  "py_float ''-1'' = Some (Finite True 4503599627370496 (- 52)) \<and>
   py_float (stored_balance (get_username 1 overdrawn_bot) (sheets overdrawn_bot)) =
     Some (Finite True 5629499534213120 (- 50)) \<and>
   float_gt (Finite True 4503599627370496 (- 52)) (Finite True 5629499534213120 (- 50)) \<and>
   handle_message 1 ''-1'' overdrawn_bot =
     handle_withdrawal 1 ''-1'' ''awaiting_amount'' overdrawn_bot \<and>
   fst (handle_message 1 ''-1'' overdrawn_bot) = Reply ''Please enter a positive amount:'' NoMarkup \<and>
   get_withdraw_state 1 (snd (handle_message 1 ''-1'' overdrawn_bot)) = Some ''awaiting_amount''"
proof -
  have u: "get_username 1 overdrawn_bot = Some ''alice''"
    by (simp add: overdrawn_bot_def session_defs alice_session_def)
  have rows: "users_rows (sheets overdrawn_bot) =
      [[''alice'', ''Alice'', ''Lee'', ''UPI'', ''alice@upi'', [], [], ''-5'']]"
    by (simp add: overdrawn_bot_def)
  have bal: "py_float (stored_balance (get_username 1 overdrawn_bot) (sheets overdrawn_bot)) =
      Some (Finite True 5629499534213120 (- 50))"
    by (simp add: u rows stored_balance_def py_float_examples)
  have gt: "float_gt (Finite True 4503599627370496 (- 52)) (Finite True 5629499534213120 (- 50))"
    by (simp add: float_gt_def scaled_mantissa_def)
  have route: "handle_message 1 ''-1'' overdrawn_bot =
      handle_withdrawal 1 ''-1'' ''awaiting_amount'' overdrawn_bot"
    by (simp add: handle_message_def overdrawn_bot_def session_defs alice_session_def
        new_session_def if_state_def str_truthy_def)
  have le: "float_le (Finite True 4503599627370496 (- 52)) float_zero"
    by (simp add: float_le_def float_zero_def scaled_mantissa_def)
  have w: "handle_withdrawal 1 ''-1'' ''awaiting_amount'' overdrawn_bot =
      (Reply ''Please enter a positive amount:'' NoMarkup, overdrawn_bot)"
    using le by (simp add: handle_withdrawal_def py_float_examples)
  have st: "get_withdraw_state 1 overdrawn_bot = Some ''awaiting_amount''"
    by (simp add: overdrawn_bot_def session_defs)
  show ?thesis
    using bal gt st by (simp add: route w py_float_examples)
qed



section \<open>The commit of a withdrawal\<close>

lemma get_user_payment_info_rows [simp]:
  "users_rows (snd (get_user_payment_info u w)) = users_rows w"
  "payments_rows (snd (get_user_payment_info u w)) = payments_rows w"
  "clock (snd (get_user_payment_info u w)) = clock w"
  by (simp_all add: get_user_payment_info_def case_prod_beta Let_def split: option.splits)

lemma get_user_payment_info_ok:
  assumes "faults w = []" and "find_row u 2 (users_rows w) = Some (row, i)"
  shows "fst (get_user_payment_info u w) \<noteq> None"
    and "faults (snd (get_user_payment_info u w)) = []"
  using assms find_row_Some[OF assms(2)]
  by (simp_all add: get_user_payment_info_def case_prod_beta Let_def find_user_ok)

lemma payment_details_rows [simp]:
  "users_rows (snd (payment_details u wd pm w)) = users_rows w"
  "payments_rows (snd (payment_details u wd pm w)) = payments_rows w"
  "clock (snd (payment_details u wd pm w)) = clock w"
  by (simp_all add: payment_details_def case_prod_beta split: option.splits)

lemma payment_details_ok:
  assumes "faults w = []" and "find_row u 2 (users_rows w) = Some (row, i)"
  shows "fst (payment_details u wd pm w) \<noteq> None"
    and "faults (snd (payment_details u wd pm w)) = []"
  using assms get_user_payment_info_ok[OF assms]
  by (auto simp: payment_details_def case_prod_beta split: option.splits)

lemma add_payment_request_ok:
  assumes "faults w = []"
  shows "fst (add_payment_request pd w) = (True, ''Payment request added successfully'')"
    and "payments_rows (snd (add_payment_request pd w)) =
           payments_rows w @ [pd @ [PyStr (clock w), PyStr ''Pending'']]"
    and "users_rows (snd (add_payment_request pd w)) = users_rows w"
    and "faults (snd (add_payment_request pd w)) = []"
  using ensure_headers_faults[OF assms, of PaymentsTable PAYMENT_HEADERS]
  by (simp_all add: add_payment_request_def case_prod_beta Let_def api_call_ok)

lemma update_user_balance_ok:
  assumes "faults w = []" and "find_row u 2 (users_rows w) = Some (row, i)"
  shows "users_rows (snd (update_user_balance u v w)) =
           (users_rows w)[i - 2 := set_cell 7 v row]"
    and "payments_rows (snd (update_user_balance u v w)) = payments_rows w"
proof -
  let ?w1 = "snd (find_user_by_username u w)"
  have f: "fst (find_user_by_username u w) = Some (row, i)" "faults ?w1 = []"
    using assms by (simp_all add: find_user_ok)
  have r: "row \<noteq> []" "(users_rows w) ! (i - 2) = row"
    using find_row_Some[OF assms(2)] by simp_all
  have u: "update_user_balance u v w =
      ((True, ''Balance updated successfully''), write_user_cell i 7 v ?w1)"
    using r(1) by (simp add: update_user_balance_def case_prod_beta Let_def f api_call_ok[OF f(2)])
  show "users_rows (snd (update_user_balance u v w)) = (users_rows w)[i - 2 := set_cell 7 v row]"
    and "payments_rows (snd (update_user_balance u v w)) = payments_rows w"
    using r(2) by (simp_all add: u write_user_cell_def)
qed

lemma find_row_update:
  assumes "find_row u k rows = Some (row, j)" and "row' \<noteq> []" and "hd row' = hd row"
  shows "find_row u k (rows[j - k := row']) = Some (row', j)"
  using assms
proof (induction rows arbitrary: k)
  case Nil
  then show ?case by simp
next
  case (Cons r rows)
  show ?case
  proof (cases "r \<noteq> [] \<and> Some (hd r) = u")
    case True
    with Cons.prems show ?thesis by auto
  next
    case False
    with Cons.prems have f: "find_row u (Suc k) rows = Some (row, j)" by auto
    from find_row_Some[OF f] have "Suc k \<le> j" by simp
    then have d: "j - k = Suc (j - Suc k)" by simp
    from Cons.IH[OF f Cons.prems(2,3)] False show ?thesis
      by (auto simp: d)
  qed
qed

lemma commit_effect:
  assumes "faults (sheets b) = []"
    and "get_username uid b = Some u"
    and "find_row (Some u) 2 (users_rows (sheets b)) = Some (row, i)"
    and "length row \<ge> 8"
    and "py_float (row ! 7) = Some B"
    and "get_withdraw_data uid b ''amount'' = Some (PyFloat A)"
  shows "(\<exists>req. payments_rows (sheets (snd (process_withdrawal_request uid pm b))) =
             payments_rows (sheets b) @ [req] \<and>
           length req = 7 \<and> req ! 0 = PyStr u \<and> req ! 1 = PyStr (str_float A) \<and>
           req ! 2 = pm \<and> req ! 6 = PyStr ''Pending'') \<and>
         users_rows (sheets (snd (process_withdrawal_request uid pm b))) =
           (users_rows (sheets b))[i - 2 := row[7 := str_float (float_sub B A)]] \<and>
         stored_balance (Some u) (sheets (snd (process_withdrawal_request uid pm b))) =
           str_float (float_sub B A) \<and>
         get_withdraw_state uid (snd (process_withdrawal_request uid pm b)) = None"
proof -
  let ?wd = "get_withdraw_data uid b"
  let ?D = "payment_details (Some u) ?wd pm (sheets b)"
  obtain cells where cells: "fst ?D = Some cells"
    using payment_details_ok(1)[OF assms(1,3), of ?wd pm] by auto
  have len: "length cells = 2"
    using cells by (auto simp: payment_details_def case_prod_beta split: if_splits option.splits)
  have fD: "faults (snd ?D) = []"
    using payment_details_ok(2)[OF assms(1,3)] .
  let ?pd = "PyStr u # PyStr (str_float A) # pm # cells"
  let ?w2 = "snd (add_payment_request ?pd (snd ?D))"
  note add = add_payment_request_ok[OF fD, of ?pd]
  have rows2: "find_row (Some u) 2 (users_rows ?w2) = Some (row, i)"
    using assms(3) add(3) by simp
  let ?w3 = "snd (get_user_balance (Some u) ?w2)"
  have bal: "fst (get_user_balance (Some u) ?w2) = row ! 7"
    using assms(4) rows2 by (simp add: get_user_balance_ok[OF add(4)] stored_balance_def)
  have f3: "faults ?w3 = []"
    using add(4) by (rule get_user_balance_ok(2))
  have rows3: "find_row (Some u) 2 (users_rows ?w3) = Some (row, i)"
    using rows2 by simp
  let ?v = "str_float (float_sub B A)"
  let ?w4 = "snd (update_user_balance (Some u) ?v ?w3)"
  note upd = update_user_balance_ok[OF f3 rows3, of ?v]
  have amount: "dict_get ?wd ''amount'' (PyInt 0) = PyFloat A"
    using assms(6) by (simp add: dict_get_def)
  have res: "snd (process_withdrawal_request uid pm b) =
      set_withdraw_state uid None (with_sheets b ?w4)"
    using assms(2,5) cells add(1) bal
    by (simp add: process_withdrawal_request_def case_prod_beta Let_def amount py_opt_def
        py_str_def balance_minus_def del: str_float.simps)
  have cell: "set_cell 7 ?v row = row[7 := ?v]"
    using assms(4) by (simp add: set_cell_def)
  have users: "users_rows ?w4 = (users_rows (sheets b))[i - 2 := row[7 := ?v]]"
    using upd(1) add(3) by (simp add: cell)
  have pays: "payments_rows ?w4 =
      payments_rows (sheets b) @ [?pd @ [PyStr (clock (snd ?D)), PyStr ''Pending'']]"
    using upd(2) add(2) by simp
  have nonempty: "row[7 := ?v] \<noteq> []" "hd (row[7 := ?v]) = hd row"
    using assms(4) by (cases row; simp)+
  have stored: "stored_balance (Some u) ?w4 = ?v"
    using find_row_update[OF assms(3) nonempty] assms(4)
    by (simp add: stored_balance_def users)
  obtain c1 c2 where cs: "cells = [c1, c2]"
    using len by (auto simp: length_Suc_conv numeral_2_eq_2)
  let ?req = "?pd @ [PyStr (clock (snd ?D)), PyStr ''Pending'']"
  have shape: "length ?req = 7 \<and> ?req ! 0 = PyStr u \<and> ?req ! 1 = PyStr (str_float A) \<and>
      ?req ! 2 = pm \<and> ?req ! 6 = PyStr ''Pending''"
    by (simp add: cs)
  have req: "\<exists>req. payments_rows ?w4 = payments_rows (sheets b) @ [req] \<and>
      length req = 7 \<and> req ! 0 = PyStr u \<and> req ! 1 = PyStr (str_float A) \<and>
      req ! 2 = pm \<and> req ! 6 = PyStr ''Pending''"
    using pays shape by blast
  show ?thesis
    using req users stored by (simp add: res with_sheets_def)
qed


text \<open>
  C1, as the code has it. Let no call of the spreadsheet fail, let the user be logged in as
  \<open>u\<close>, let the first row of \<open>u\<close> have its eight cells and a balance text that \<open>float\<close> reads
  as \<open>B\<close>, and let the session hold the amount \<open>A\<close>. Then the commit appends exactly one
  Payments row, for \<open>u\<close> and \<open>str(A)\<close> and with the status \<open>"Pending"\<close>, and then writes
  \<open>str(B - A)\<close> into the balance cell of that row of \<open>u\<close>: the difference is the float
  difference, rounded to the nearest binary64 number, and its text is the shortest
  decimal that reads back as that float. The withdrawal state is \<open>None\<close> afterwards.
\<close>

theorem withdrawal_commit:
  assumes "faults (sheets b) = []"
    and "get_username uid b = Some u"
    and "find_row (Some u) 2 (users_rows (sheets b)) = Some (row, i)"
    and "length row \<ge> 8"
    and "py_float (row ! 7) = Some B"
    and "get_withdraw_data uid b ''amount'' = Some (PyFloat A)"
  shows "(\<exists>req. payments_rows (sheets (snd (process_withdrawal_request uid pm b))) =
             payments_rows (sheets b) @ [req] \<and>
           length req = 7 \<and> req ! 0 = PyStr u \<and> req ! 1 = PyStr (str_float A) \<and>
           req ! 2 = pm \<and> req ! 6 = PyStr ''Pending'') \<and>
         users_rows (sheets (snd (process_withdrawal_request uid pm b))) =
           (users_rows (sheets b))[i - 2 := row[7 := str_float (float_sub B A)]] \<and>
         stored_balance (Some u) (sheets (snd (process_withdrawal_request uid pm b))) =
           str_float (float_sub B A) \<and>
         get_withdraw_state uid (snd (process_withdrawal_request uid pm b)) = None"
  using assms by (rule commit_effect)


lemma py_float_fractions:
  "py_float ''0.3'' = Some (Finite False 5404319552844595 (- 54))"
  "py_float ''0.1'' = Some (Finite False 7205759403792794 (- 56))"
  by (simp_all add: float_eval_defs)

lemma float_examples:
  "float_sub (Finite False 5000000000000000 1) (Finite False 4503599627370496 (- 52)) =
     Finite False 5000000000000000 1"
  "float_sub (Finite False 7036874417766400 (- 46)) (Finite False 8444249301319680 (- 48)) =
     Finite False 4925812092436480 (- 46)"
  "float_sub (Finite False 5404319552844595 (- 54)) (Finite False 7205759403792794 (- 56)) =
     Finite False 7205759403792793 (- 55)"
  by (simp_all add: float_eval_defs)

lemma str_float_examples:
  "str_float (Finite False 5000000000000000 1) = ''1e+16''"
  "str_float (Finite False 4925812092436480 (- 46)) = ''70.0''"
  "str_float (Finite False 4503599627370496 (- 52)) = ''1.0''"
  "str_float (Finite False 8444249301319680 (- 48)) = ''30.0''"
  "str_float (Finite False 7205759403792794 (- 56)) = ''0.1''"
  by (simp_all add: str_eval_defs)

lemma str_float_fraction:
  "str_float (Finite False 7205759403792793 (- 55)) = ''0.19999999999999998''"
  by (simp add: str_eval_defs)

text \<open>
  C1 as stated fails, because the balance is computed on binary floats. With the balance
  \<open>"10000000000000000"\<close> and the amount \<open>"1"\<close> both texts are read exactly and
  \<open>0 < A \<le> B\<close> holds; the difference \<open>9999999999999999\<close> is not a binary64 number and
  is rounded back to \<open>10^16\<close>, so the commit records the request and stores the
  balance \<open>"1e+16"\<close>. With the balance \<open>"0.3"\<close> and the amount \<open>"0.1"\<close> the stored balance is
  \<open>"0.19999999999999998"\<close>, which denotes neither \<open>0.2\<close> nor the difference of the two
  floats.
\<close>

theorem withdrawal_commit_not_exact:
  "py_float (stored_balance (get_username 1 rich_bot) (sheets rich_bot)) =
     Some (Finite False 5000000000000000 1) \<and>
   float_value (Finite False 5000000000000000 1) = Some 10000000000000000 \<and>
   get_withdraw_data 1 (run 1 [''Withdraw Funds'', ''1''] rich_bot) ''amount'' =
     Some (PyFloat (Finite False 4503599627370496 (- 52))) \<and>
   float_value (Finite False 4503599627370496 (- 52)) = Some 1 \<and>
   float_lt float_zero (Finite False 4503599627370496 (- 52)) \<and>
   float_le (Finite False 4503599627370496 (- 52)) (Finite False 5000000000000000 1) \<and>
   length (payments_rows (sheets (run 1 [''Withdraw Funds'', ''1'', ''Yes''] rich_bot))) = 1 \<and>
   stored_balance (Some ''alice'')
     (sheets (run 1 [''Withdraw Funds'', ''1'', ''Yes''] rich_bot)) = ''1e+16'' \<and>
   \<not> exact_difference_text ''1e+16''
     (Finite False 5000000000000000 1) (Finite False 4503599627370496 (- 52)) \<and>
   py_float (stored_balance (get_username 1 small_bot) (sheets small_bot)) =
     Some (Finite False 5404319552844595 (- 54)) \<and>
   get_withdraw_data 1 (run 1 [''Withdraw Funds'', ''0.1''] small_bot) ''amount'' =
     Some (PyFloat (Finite False 7205759403792794 (- 56))) \<and>
   stored_balance (Some ''alice'')
     (sheets (run 1 [''Withdraw Funds'', ''0.1'', ''Yes''] small_bot)) = ''0.19999999999999998'' \<and>
   decimal_value ''0.19999999999999998'' \<noteq> Some (3 / 10 - 1 / 10) \<and>
   \<not> exact_difference_text ''0.19999999999999998''
     (Finite False 5404319552844595 (- 54)) (Finite False 7205759403792794 (- 56))"
proof -
  have b1: "py_float (stored_balance (get_username 1 rich_bot) (sheets rich_bot)) =
      Some (Finite False 5000000000000000 1)"
    by (simp add: rich_bot_def session_defs alice_session_def stored_balance_def py_float_examples)
  have v: "float_value (Finite False 5000000000000000 1) = Some 10000000000000000"
      "float_value (Finite False 4503599627370496 (- 52)) = Some 1"
    by (simp_all add: pow_int_def)
  have a1: "get_withdraw_data 1 (run 1 [''Withdraw Funds'', ''1''] rich_bot) ''amount'' =
      Some (PyFloat (Finite False 4503599627370496 (- 52)))"
    by (simp add: run_eval_defs rich_bot_def py_float_examples)
  have c1: "float_lt float_zero (Finite False 4503599627370496 (- 52))"
      "float_le (Finite False 4503599627370496 (- 52)) (Finite False 5000000000000000 1)"
    by (simp_all add: float_le_def float_zero_def scaled_mantissa_def)
  have r1: "length (payments_rows (sheets (run 1 [''Withdraw Funds'', ''1'', ''Yes''] rich_bot))) = 1"
      "stored_balance (Some ''alice'')
        (sheets (run 1 [''Withdraw Funds'', ''1'', ''Yes''] rich_bot)) = ''1e+16''"
    by (simp_all add: run_eval_defs rich_bot_def py_float_examples float_examples
        str_float_examples del: str_float.simps float_sub.simps)
  have d1: "decimal_value ''1e+16'' = Some 10000000000000000"
    by (simp add: decimal_value_def parse_decimal_def parse_sign_def parse_exponent_def
        is_digit_def ord_def pow_int_def Let_def)
  have e1: "\<not> exact_difference_text ''1e+16''
      (Finite False 5000000000000000 1) (Finite False 4503599627370496 (- 52))"
    by (simp add: exact_difference_text_def d1 pow_int_def)
  have b2: "py_float (stored_balance (get_username 1 small_bot) (sheets small_bot)) =
      Some (Finite False 5404319552844595 (- 54))"
    by (simp add: small_bot_def session_defs alice_session_def stored_balance_def py_float_fractions)
  have a2: "get_withdraw_data 1 (run 1 [''Withdraw Funds'', ''0.1''] small_bot) ''amount'' =
      Some (PyFloat (Finite False 7205759403792794 (- 56)))"
    by (simp add: run_eval_defs small_bot_def py_float_fractions)
  have r2: "stored_balance (Some ''alice'')
      (sheets (run 1 [''Withdraw Funds'', ''0.1'', ''Yes''] small_bot)) = ''0.19999999999999998''"
    by (simp add: run_eval_defs small_bot_def py_float_fractions float_examples
        str_float_examples str_float_fraction del: str_float.simps float_sub.simps)
  have d2: "decimal_value ''0.19999999999999998'' = Some (19999999999999998 / 100000000000000000)"
    by (simp add: decimal_value_def parse_decimal_def parse_sign_def parse_exponent_def
        is_digit_def ord_def pow_int_def Let_def)
  have n2: "decimal_value ''0.19999999999999998'' \<noteq> Some (3 / 10 - 1 / 10)"
    by (simp add: d2)
  have e2: "\<not> exact_difference_text ''0.19999999999999998''
      (Finite False 5404319552844595 (- 54)) (Finite False 7205759403792794 (- 56))"
    by (simp add: exact_difference_text_def d2 pow_int_def)
  show ?thesis
    using b1 v a1 c1 r1 e1 b2 a2 r2 n2 e2 by blast
qed

theorem withdrawal_commit_witness:
  "faults (sheets (run 1 [''Withdraw Funds'', ''30''] example_bot)) = [] \<and>
   get_username 1 (run 1 [''Withdraw Funds'', ''30''] example_bot) = Some ''alice'' \<and>
   find_row (Some ''alice'') 2 (users_rows (sheets (run 1 [''Withdraw Funds'', ''30''] example_bot))) =
     Some ([''alice'', ''Alice'', ''Lee'', ''UPI'', ''alice@upi'', [], [], ''100''], 2) \<and>
   py_float ''100'' = Some (Finite False 7036874417766400 (- 46)) \<and>
   get_withdraw_data 1 (run 1 [''Withdraw Funds'', ''30''] example_bot) ''amount'' =
     Some (PyFloat (Finite False 8444249301319680 (- 48))) \<and>
   (\<exists>req. payments_rows (sheets (snd (process_withdrawal_request 1 (PyStr ''UPI'')
        (run 1 [''Withdraw Funds'', ''30''] example_bot)))) = [req] \<and>
      length req = 7 \<and> req ! 0 = PyStr ''alice'' \<and> req ! 1 = PyStr ''30.0'' \<and>
      req ! 2 = PyStr ''UPI'' \<and> req ! 6 = PyStr ''Pending'') \<and>
   users_rows (sheets (snd (process_withdrawal_request 1 (PyStr ''UPI'')
     (run 1 [''Withdraw Funds'', ''30''] example_bot)))) =
     [[''alice'', ''Alice'', ''Lee'', ''UPI'', ''alice@upi'', [], [], ''70.0'']] \<and>
   stored_balance (Some ''alice'') (sheets (snd (process_withdrawal_request 1 (PyStr ''UPI'')
     (run 1 [''Withdraw Funds'', ''30''] example_bot)))) = ''70.0'' \<and>
   get_withdraw_state 1 (snd (process_withdrawal_request 1 (PyStr ''UPI'')
     (run 1 [''Withdraw Funds'', ''30''] example_bot))) = None"
proof -
  let ?b = "run 1 [''Withdraw Funds'', ''30''] example_bot"
  let ?row = "[''alice'', ''Alice'', ''Lee'', ''UPI'', ''alice@upi'', [], [], ''100'']"
  have h1: "faults (sheets ?b) = []"
    by (simp add: run_eval_defs py_float_examples)
  have h2: "get_username 1 ?b = Some ''alice''"
    by (simp add: run_eval_defs py_float_examples)
  have rows: "users_rows (sheets ?b) = [?row]" "payments_rows (sheets ?b) = []"
    by (simp_all add: run_eval_defs py_float_examples)
  have h3: "find_row (Some ''alice'') 2 (users_rows (sheets ?b)) = Some (?row, 2)"
    by (simp add: rows)
  have h4: "length ?row \<ge> 8" by simp
  have h5: "py_float (?row ! 7) = Some (Finite False 7036874417766400 (- 46))"
    by (simp add: py_float_examples)
  have h6: "get_withdraw_data 1 ?b ''amount'' = Some (PyFloat (Finite False 8444249301319680 (- 48)))"
    by (simp add: run_eval_defs py_float_examples)
  from withdrawal_commit[OF h1 h2 h3 h4 h5 h6, of "PyStr ''UPI''"] h1 h2 h3 h6
  show ?thesis
    by (simp add: rows float_examples str_float_examples py_float_examples
        del: str_float.simps float_sub.simps)
qed



section \<open>The end of a dialogue\<close>

lemma state_reset [simp]:
  "get_registration_state uid (set_registration_state uid None b) = None"
  "get_update_profile_state uid (set_update_profile_state uid None b) = None"
  by (auto simp: session_defs split: option.splits)

lemma scratch_kept [simp]:
  "get_registration_data uid (set_registration_state uid st b) = get_registration_data uid b"
  "get_withdraw_data uid (set_withdraw_state uid st b) = get_withdraw_data uid b"
  "get_update_field uid (set_update_profile_state uid st b) = get_update_field uid b"
  "get_registration_data uid (with_sheets b w) = get_registration_data uid b"
  "get_withdraw_data uid (with_sheets b w) = get_withdraw_data uid b"
  "get_update_field uid (with_sheets b w) = get_update_field uid b"
  by (auto simp: session_defs with_sheets_def split: option.splits)

lemma registration_cancelled:
  assumes "lower t \<noteq> ''yes''"
  shows "get_registration_state uid (snd (handle_registration uid t ''awaiting_confirmation'' b)) = None"
    and "get_registration_data uid (snd (handle_registration uid t ''awaiting_confirmation'' b)) =
           get_registration_data uid b"
  using assms by (simp_all add: handle_registration_def)

lemma registration_succeeded:
  assumes "lower t = ''yes''" and "fst (register_user uid b) = Inr (True, msg)"
  shows "get_registration_state uid (snd (handle_registration uid t ''awaiting_confirmation'' b)) = None"
    and "get_registration_data uid (snd (handle_registration uid t ''awaiting_confirmation'' b)) =
           get_registration_data uid b"
proof -
  obtain b1 where r: "register_user uid b = (Inr (True, msg), b1)"
    using assms(2) by (cases "register_user uid b") auto
  have h: "snd (handle_registration uid t ''awaiting_confirmation'' b) =
      set_registration_state uid None b1"
    using assms(1) by (simp add: handle_registration_def r Let_def)
  have d: "get_registration_data uid b1 = get_registration_data uid b"
    using r
    by (auto simp: register_user_def case_prod_beta Let_def get_registration_data_def
        split: option.splits if_splits)
  show "get_registration_state uid (snd (handle_registration uid t ''awaiting_confirmation'' b)) = None"
    and "get_registration_data uid (snd (handle_registration uid t ''awaiting_confirmation'' b)) =
           get_registration_data uid b"
    by (simp_all add: h d)
qed

lemma commit_replied:
  assumes "fst (process_withdrawal_request uid pm b) = Reply t k"
  shows "get_withdraw_state uid (snd (process_withdrawal_request uid pm b)) = None"
    and "get_withdraw_data uid (snd (process_withdrawal_request uid pm b)) = get_withdraw_data uid b"
  using assms
  by (auto simp: process_withdrawal_request_def case_prod_beta Let_def
      split: option.splits sum.splits if_splits)

lemma insufficient_balance_resets:
  assumes "py_float t = Some a" and "\<not> float_le a float_zero"
    and "py_float (fst (get_user_balance (get_username uid b) (sheets b))) = Some bal"
    and "float_gt a bal"
  shows "get_withdraw_state uid (snd (handle_withdrawal uid t ''awaiting_amount'' b)) = None"
  using assms by (simp add: handle_withdrawal_def case_prod_beta Let_def)

lemma profile_update_ended:
  "t = ''UPI'' \<or> t = ''Bank Account'' \<Longrightarrow>
     get_update_profile_state uid (snd (handle_profile_update uid t ''updating_payment_mode'' b)) = None \<and>
     get_update_field uid (snd (handle_profile_update uid t ''updating_payment_mode'' b)) =
       get_update_field uid b"
  "get_update_profile_state uid (snd (handle_profile_update uid t ''updating_field'' b)) = None \<and>
   get_update_field uid (snd (handle_profile_update uid t ''updating_field'' b)) =
     get_update_field uid b"
  by (auto simp: handle_profile_update_def case_prod_beta Let_def)

text \<open>
  \<open>"Back to Main Menu"\<close> does not end a profile update. \<open>start_profile_update\<close> opens the
  dialogue for a logged-in user only, and for a logged-in user \<open>handle_message\<close> answers
  this text with the main menu before it looks at the dialogue: the branch of
  \<open>handle_profile_update\<close> that resets the state is not reached, and the state of the
  profile update stays \<open>selecting_field\<close>.
\<close>

lemma back_to_main_menu_keeps_state:
  assumes "is_logged_in uid b"
  shows "handle_message uid ''Back to Main Menu'' b = main_menu uid b"
    and "get_update_profile_state uid (snd (handle_message uid ''Back to Main Menu'' b)) =
           get_update_profile_state uid b"
proof -
  from assms obtain s where s: "active_users b uid = Some s"
    by (auto simp: is_logged_in_def split: option.splits)
  show r: "handle_message uid ''Back to Main Menu'' b = main_menu uid b"
    using assms s by (simp add: handle_message_def)
  show "get_update_profile_state uid (snd (handle_message uid ''Back to Main Menu'' b)) =
      get_update_profile_state uid b"
    by (simp add: r main_menu_def)
qed

lemma back_to_main_menu_example:
  "get_update_profile_state 1 (run 1 [''Update Profile''] example_bot) = Some ''selecting_field''"
  "fst (handle_message 1 ''Back to Main Menu'' (run 1 [''Update Profile''] example_bot)) =
     Reply MAIN_MENU get_main_menu_keyboard"
  "get_update_profile_state 1 (run 1 [''Update Profile'', ''Back to Main Menu''] example_bot) =
     Some ''selecting_field''"
  by (simp_all add: run_eval_defs)

text \<open>
  When the registration commit fails, \<open>handle_registration\<close> replies and leaves the
  registration state as it is, unlike the failure branches of the two other dialogues.
\<close>

lemma failed_registration_keeps_state:
  assumes "lower t = ''yes''" and "fst (register_user uid b) = Inr (False, msg)"
  shows "get_registration_state uid (snd (handle_registration uid t ''awaiting_confirmation'' b)) =
           get_registration_state uid b"
proof -
  obtain b1 where r: "register_user uid b = (Inr (False, msg), b1)"
    using assms(2) by (cases "register_user uid b") auto
  have "get_registration_state uid b1 = get_registration_state uid b"
    using r
    by (auto simp: register_user_def case_prod_beta Let_def get_registration_state_def
        split: option.splits if_splits)
  then show ?thesis
    using assms(1) by (simp add: handle_registration_def r)
qed

text \<open>
  C4, as the code has it. The state of a dialogue is reset to \<open>None\<close> when the registration
  ends by cancellation or by a successful commit, when the withdrawal ends by its commit
  (the request recorded, or the append failed and reported) or by the abort for an
  insufficient balance, and when the profile update ends (the update done or failed). The
  scratch data of the dialogue, that is \<open>registration_data\<close>, \<open>withdraw_data\<close> and
  \<open>update_field\<close>, is kept as it was: no handler clears it.
\<close>

theorem dialogue_end_resets_state:
  "(lower t \<noteq> ''yes'' \<longrightarrow>
      get_registration_state uid (snd (handle_registration uid t ''awaiting_confirmation'' b)) = None \<and>
      get_registration_data uid (snd (handle_registration uid t ''awaiting_confirmation'' b)) =
        get_registration_data uid b) \<and>
   (lower t = ''yes'' \<and> fst (register_user uid b) = Inr (True, msg) \<longrightarrow>
      get_registration_state uid (snd (handle_registration uid t ''awaiting_confirmation'' b)) = None \<and>
      get_registration_data uid (snd (handle_registration uid t ''awaiting_confirmation'' b)) =
        get_registration_data uid b) \<and>
   (fst (process_withdrawal_request uid pm b) = Reply reply kb \<longrightarrow>
      get_withdraw_state uid (snd (process_withdrawal_request uid pm b)) = None \<and>
      get_withdraw_data uid (snd (process_withdrawal_request uid pm b)) = get_withdraw_data uid b) \<and>
   (py_float t = Some a \<and> \<not> float_le a float_zero \<and>
    py_float (fst (get_user_balance (get_username uid b) (sheets b))) = Some bal \<and>
    float_gt a bal \<longrightarrow>
      get_withdraw_state uid (snd (handle_withdrawal uid t ''awaiting_amount'' b)) = None) \<and>
   (t = ''UPI'' \<or> t = ''Bank Account'' \<longrightarrow>
      get_update_profile_state uid
        (snd (handle_profile_update uid t ''updating_payment_mode'' b)) = None \<and>
      get_update_field uid (snd (handle_profile_update uid t ''updating_payment_mode'' b)) =
        get_update_field uid b) \<and>
   get_update_profile_state uid (snd (handle_profile_update uid t ''updating_field'' b)) = None \<and>
   get_update_field uid (snd (handle_profile_update uid t ''updating_field'' b)) =
     get_update_field uid b"
proof -
  have p2: "get_update_profile_state uid (snd (handle_profile_update uid t ''updating_field'' b)) = None"
      "get_update_field uid (snd (handle_profile_update uid t ''updating_field'' b)) =
        get_update_field uid b"
    using profile_update_ended(2)[of uid t b] by blast+
  show ?thesis
    using registration_cancelled[of t uid b] registration_succeeded[of t uid b msg]
      commit_replied[of uid pm b reply kb] insufficient_balance_resets[of t a uid b bal]
      profile_update_ended(1)[of t uid b] p2
    by blast
qed

theorem dialogue_end_resets_state_witness:
  "lower ''No'' \<noteq> ''yes'' \<and>
   get_registration_state 1
     (snd (handle_registration 1 ''No'' ''awaiting_confirmation'' example_bot)) = None \<and>
   lower ''Yes'' = ''yes'' \<and>
   fst (register_user 2 (run 2 [''Signup'', ''carol'', ''Carol'', ''Ng'', ''UPI'', ''carol@upi'']
     example_bot)) = Inr (True, ''User registered successfully'') \<and>
   get_registration_state 2 (snd (handle_registration 2 ''Yes'' ''awaiting_confirmation''
     (run 2 [''Signup'', ''carol'', ''Carol'', ''Ng'', ''UPI'', ''carol@upi''] example_bot))) = None \<and>
   fst (process_withdrawal_request 1 (PyStr ''UPI'')
     (run 1 [''Withdraw Funds'', ''30''] example_bot)) =
     Reply (''Your payment request for '' @ rupee @ ''30.0'' @
            '' has been received. It will be processed on '' @ DEFAULT_PAYMENT_DATE @ ''.'' @
            newline @ newline @ ''Please forward a screenshot of this chat to @'' @
            INVOICE_BOT_USERNAME @ '' for reference.'') get_main_menu_keyboard \<and>
   get_withdraw_state 1 (snd (process_withdrawal_request 1 (PyStr ''UPI'')
     (run 1 [''Withdraw Funds'', ''30''] example_bot))) = None \<and>
   get_withdraw_data 1 (snd (process_withdrawal_request 1 (PyStr ''UPI'')
     (run 1 [''Withdraw Funds'', ''30''] example_bot))) ''amount'' =
     Some (PyFloat (Finite False 8444249301319680 (- 48))) \<and>
   py_float ''250'' = Some (Finite False 8796093022208000 (- 45)) \<and>
   float_gt (Finite False 8796093022208000 (- 45)) (Finite False 7036874417766400 (- 46)) \<and>
   get_withdraw_state 1 (snd (handle_withdrawal 1 ''250'' ''awaiting_amount''
     (run 1 [''Withdraw Funds''] example_bot))) = None \<and>
   get_update_profile_state 1
     (snd (handle_profile_update 1 ''UPI'' ''updating_payment_mode'' example_bot)) = None"
proof -
  let ?br = "run 2 [''Signup'', ''carol'', ''Carol'', ''Ng'', ''UPI'', ''carol@upi''] example_bot"
  let ?bw = "run 1 [''Withdraw Funds'', ''30''] example_bot"
  let ?ba = "run 1 [''Withdraw Funds''] example_bot"
  have no: "lower ''No'' \<noteq> ''yes''"
    by (simp add: lower_def lower_char_def upper_letters_def lower_letters_def)
  have yes: "lower ''Yes'' = ''yes''"
    by (simp add: lower_def lower_char_def upper_letters_def lower_letters_def)
  have reg: "fst (register_user 2 ?br) = Inr (True, ''User registered successfully'')"
    by (simp add: run_eval_defs register_user_def sheets_register_user_def user_row_def
        found_truthy_def)
  have rep: "fst (process_withdrawal_request 1 (PyStr ''UPI'') ?bw) =
      Reply (''Your payment request for '' @ rupee @ ''30.0'' @
            '' has been received. It will be processed on '' @ DEFAULT_PAYMENT_DATE @ ''.'' @
            newline @ newline @ ''Please forward a screenshot of this chat to @'' @
            INVOICE_BOT_USERNAME @ '' for reference.'') get_main_menu_keyboard"
    by (simp add: run_eval_defs py_float_examples float_examples str_float_examples
        del: str_float.simps float_sub.simps)
  have amt: "get_withdraw_data 1 ?bw ''amount'' = Some (PyFloat (Finite False 8444249301319680 (- 48)))"
    by (simp add: run_eval_defs py_float_examples)
  have pos: "\<not> float_le (Finite False 8796093022208000 (- 45)) float_zero"
    by (simp add: float_le_def float_zero_def scaled_mantissa_def)
  have bal: "py_float (fst (get_user_balance (get_username 1 ?ba) (sheets ?ba))) =
      Some (Finite False 7036874417766400 (- 46))"
    by (simp add: run_eval_defs py_float_examples)
  have gt: "float_gt (Finite False 8796093022208000 (- 45)) (Finite False 7036874417766400 (- 46))"
    by (simp add: float_gt_def scaled_mantissa_def)
  note c = dialogue_end_resets_state[of "''No''" 1 example_bot]
  note r = dialogue_end_resets_state[of "''Yes''" 2 ?br "''User registered successfully''"]
  note w = dialogue_end_resets_state[of _ 1 ?bw _ "PyStr ''UPI''" _ get_main_menu_keyboard]
  note i = dialogue_end_resets_state[of "''250''" 1 ?ba _ _ _ _
      "Finite False 8796093022208000 (- 45)" "Finite False 7036874417766400 (- 46)"]
  note p = dialogue_end_resets_state[of "''UPI''" 1 example_bot]
  have c': "get_registration_state 1
      (snd (handle_registration 1 ''No'' ''awaiting_confirmation'' example_bot)) = None"
    using c no by blast
  have r': "get_registration_state 2
      (snd (handle_registration 2 ''Yes'' ''awaiting_confirmation'' ?br)) = None"
    using r yes reg by blast
  have w': "get_withdraw_state 1 (snd (process_withdrawal_request 1 (PyStr ''UPI'') ?bw)) = None"
      "get_withdraw_data 1 (snd (process_withdrawal_request 1 (PyStr ''UPI'') ?bw)) =
        get_withdraw_data 1 ?bw"
    using w rep by blast+
  have i': "get_withdraw_state 1 (snd (handle_withdrawal 1 ''250'' ''awaiting_amount'' ?ba)) = None"
    using i py_float_examples(4) pos bal gt by blast
  have p': "get_update_profile_state 1
      (snd (handle_profile_update 1 ''UPI'' ''updating_payment_mode'' example_bot)) = None"
    using p by blast
  show ?thesis
    using no c' yes reg r' rep w'(1) amt py_float_examples(4) gt i' p' by (simp add: w'(2))
qed

text \<open>
  C4 as stated fails: the scratch data is not cleared. After a registration that the user
  cancels with \<open>"No"\<close> the registration state is \<open>None\<close> and the answers are still in
  \<open>registration_data\<close>; after a committed withdrawal the withdrawal state is \<open>None\<close> and
  the amount is still in \<open>withdraw_data\<close>.
\<close>

theorem scratch_data_survives:
  "get_registration_state 2
     (run 2 [''Signup'', ''carol'', ''Carol'', ''Ng'', ''UPI'', ''carol@upi'', ''No''] example_bot) = None \<and>
   get_registration_data 2
     (run 2 [''Signup'', ''carol'', ''Carol'', ''Ng'', ''UPI'', ''carol@upi'', ''No''] example_bot)
     ''username'' = Some ''carol'' \<and>
   get_registration_data 2
     (run 2 [''Signup'', ''carol'', ''Carol'', ''Ng'', ''UPI'', ''carol@upi'', ''No''] example_bot)
     ''upi_id'' = Some ''carol@upi'' \<and>
   get_withdraw_state 1 (run 1 [''Withdraw Funds'', ''30'', ''Yes''] example_bot) = None \<and>
   get_withdraw_data 1 (run 1 [''Withdraw Funds'', ''30'', ''Yes''] example_bot) ''amount'' =
     Some (PyFloat (Finite False 8444249301319680 (- 48)))"
  by (simp add: run_eval_defs found_truthy_def py_float_examples float_examples
      str_float_examples del: str_float.simps float_sub.simps)


end
